theory Spec2Isabelle
  imports Complex_Main
begin

section \<open>Go values, errors and the standard library\<close>

text \<open>
  A Go \<open>error\<close> is observed by the code only through its text: every \<open>fmt.Errorf\<close> and
  \<open>fmt.Sprintf\<close> of the repository formats an error with \<open>%s\<close>, which calls \<open>Error()\<close>.
  An error is therefore modelled by that text; \<open>nil\<close> is \<open>None\<close> of \<open>error option\<close>.
\<close>

datatype error = errorString (Error: string)

text \<open>
  The dynamic values held by an \<open>interface{}\<close>: the shapes \<open>encoding/json\<close> decodes to,
  and \<open>VOther\<close> for a value of any other Go type (named by a description). A \<open>float64\<close> is
  modelled by the real number it denotes.
\<close>

datatype iface =
    VNil
  | VBool bool
  | VFloat64 real
  | VString string
  | VSlice "iface list"
  | VMap "(string \<times> iface) list"
  | VOther string

text \<open>
  Functions of the Go standard library and of the language that the code calls. They are not
  code of the repository, so they are parameters of the model:
  \<^item> \<open>json_Marshal v\<close> is \<open>json.Marshal(v)\<close>, the bytes or the error;
  \<^item> \<open>json_Unmarshal raw\<close> is \<open>json.Unmarshal(raw, &m)\<close> for an empty
    \<open>m : map[string]interface{}\<close>, the filled map or the error;
  \<^item> \<open>fmt_GoSyntax v\<close> is the text \<open>%#v\<close> prints for \<open>v\<close>;
  \<^item> \<open>float64_to_int f\<close> is the conversion \<open>int(f)\<close>.
\<close>

record golib =
  json_Marshal :: "iface \<Rightarrow> error + string"
  json_Unmarshal :: "string \<Rightarrow> error + (string \<rightharpoonup> iface)"
  fmt_GoSyntax :: "iface \<Rightarrow> string"
  float64_to_int :: "real \<Rightarrow> int"

text \<open>
  \<open>strings.Trim(s, cutset)\<close>: all leading and all trailing characters that occur in
  \<open>cutset\<close> are removed. (The only cutset of the code is the one-byte string of the double
  quote, for which bytes and code points agree.)
\<close>

definition strings_Trim :: "string \<Rightarrow> string \<Rightarrow> string" where
  "strings_Trim s cutset =
     rev (dropWhile (\<lambda>c. c \<in> set cutset) (rev (dropWhile (\<lambda>c. c \<in> set cutset) s)))"

text \<open>Indexing a Go map: a missing key reads as the zero value, \<open>nil\<close> for \<open>interface{}\<close>.\<close>

definition index_iface :: "(string \<rightharpoonup> iface) \<Rightarrow> string \<Rightarrow> iface" where
  "index_iface m k = (case m k of None \<Rightarrow> VNil | Some v \<Rightarrow> v)"

section \<open>The data model of \<open>terraform/action.go\<close>\<close>

text \<open>
  Modelled from the spec: \<open>models.Version\<close> is declared in the package \<open>models\<close>, whose
  source is not among the files modelled here. \<open>EnvName\<close> and \<open>Serial\<close> are the fields that
  \<open>action.go\<close> fills in; \<open>PlanOnly\<close> stands for the part of a version that \<open>IsPlan()\<close>
  reads (the "plan-only" request variant of the glossary).
\<close>

record Version =
  EnvName :: string
  Serial :: int
  PlanOnly :: bool

definition Version_zero :: Version where
  "Version_zero = \<lparr>EnvName = [], Serial = 0, PlanOnly = False\<rparr>"

text \<open>
  \<open>Result\<close>. \<open>Output\<close> maps an output name to its record, itself a map from field names
  (\<open>value\<close>, \<open>sensitive\<close>) to dynamic values. A \<open>nil\<close> map and an empty map are both
  \<open>Map.empty\<close>: the code only ranges over them.
\<close>

record Result =
  Version :: Version
  Output :: "string \<rightharpoonup> (string \<rightharpoonup> iface)"

definition Result_zero :: Result where
  "Result_zero = \<lparr>Result.Version = Version_zero, Output = Map.empty\<rparr>"

text \<open>
  \<open>RawOutput\<close> and \<open>SanitizedOutput\<close> range over \<open>r.Output\<close> and write one entry of the
  new map per key, computed from that key's record alone; the map they build is therefore
  given key by key. \<open>sanitize_entry\<close> is the body of the loop of \<open>SanitizedOutput\<close>.
\<close>

definition RawOutput :: "Result \<Rightarrow> (string \<rightharpoonup> iface)" where
  "RawOutput r = (\<lambda>key. case Output r key of
       None \<Rightarrow> None
     | Some val \<Rightarrow> Some (index_iface val ''value''))"

definition sanitize_entry :: "golib \<Rightarrow> string \<Rightarrow> (string \<rightharpoonup> iface) \<Rightarrow> string" where
  "sanitize_entry lib key val =
     (if index_iface val ''sensitive'' = VBool True then ''<sensitive>''
      else
        (let jsonValue =
           (case json_Marshal lib (index_iface val ''value'') of
              Inr bytes \<Rightarrow> bytes
            | Inl err \<Rightarrow>
                ''Unable to parse output value for key '' @ [CHR 0x27] @ key @ [CHR 0x27]
                  @ '': '' @ Error err)
         in strings_Trim jsonValue [CHR 0x22]))"

definition SanitizedOutput :: "golib \<Rightarrow> Result \<Rightarrow> (string \<rightharpoonup> string)" where
  "SanitizedOutput lib r = (\<lambda>key. case Output r key of
       None \<Rightarrow> None
     | Some val \<Rightarrow> Some (sanitize_entry lib key val))"

section \<open>Effects: the provisioning client and the logger\<close>

text \<open>
  \<open>Client\<close> is an interface; its implementation runs the external engine. Each method is a
  parameter: a function of the engine's state \<open>'s\<close> that returns the method's result and the
  next state. A method with result \<open>(T, error)\<close> returns \<open>Inl\<close> the error or \<open>Inr\<close> the value
  (the code reads the value only when the error is \<open>nil\<close>).
\<close>

record 's Client =
  Client_InitWithBackend :: "'s \<Rightarrow> error option \<times> 's"
  Client_Import :: "string \<Rightarrow> 's \<Rightarrow> error option \<times> 's"
  Client_WorkspaceList :: "'s \<Rightarrow> (error + string list) \<times> 's"
  Client_WorkspaceNew :: "string \<Rightarrow> 's \<Rightarrow> error option \<times> 's"
  Client_WorkspaceDelete :: "string \<Rightarrow> 's \<Rightarrow> error option \<times> 's"
  Client_Apply :: "'s \<Rightarrow> error option \<times> 's"
  Client_Destroy :: "'s \<Rightarrow> error option \<times> 's"
  Client_StatePull :: "string \<Rightarrow> 's \<Rightarrow> (error + string) \<times> 's"
  Client_Output :: "string \<Rightarrow> 's \<Rightarrow> (error + (string \<rightharpoonup> (string \<rightharpoonup> iface))) \<times> 's"

text \<open>
  Every call of a client method and every call of the logger is recorded, in order, in the
  trace of the world, so that "is never invoked" and "exactly once" are statements about
  the trace.
\<close>

datatype event =
    InitWithBackend_call
  | Import_call string
  | WorkspaceList_call
  | WorkspaceNew_call string
  | WorkspaceDelete_call string
  | Apply_call
  | Destroy_call
  | StatePull_call string
  | Output_call string
  | Logger_Error string
  | Logger_Warn string
  | Logger_Success string
  | Logger_InfoSection string
  | Logger_WarnSection string
  | Logger_EndSection

record 's world =
  engine :: 's
  events :: "event list"

definition invoke :: "event \<Rightarrow> ('s \<Rightarrow> 'r \<times> 's) \<Rightarrow> 's world \<Rightarrow> 'r \<times> 's world" where
  "invoke ev op w =
     (case op (engine w) of (r, s') \<Rightarrow> (r, \<lparr>engine = s', events = events w @ [ev]\<rparr>))"

definition emit :: "event \<Rightarrow> 's world \<Rightarrow> 's world" where
  "emit ev w = \<lparr>engine = engine w, events = events w @ [ev]\<rparr>"

text \<open>The calls appended to the trace between two worlds.\<close>

definition new_events :: "'s world \<Rightarrow> 's world \<Rightarrow> event list" where
  "new_events w w' = drop (length (events w)) (events w')"

section \<open>The action: \<open>terraform/action.go\<close>\<close>

text \<open>The \<open>Logger\<close> field of \<open>Action\<close> is the sink of the \<open>Logger_\<close> events of the trace.\<close>

record 's Action =
  Client :: "'s Client"
  EnvName :: string
  DeleteOnFailure :: bool

text \<open>\<open>setup\<close> of the source (the name is a keyword of Isabelle).\<close>

definition Action_setup :: "'s Action \<Rightarrow> 's world \<Rightarrow> error option \<times> 's world" where
  "Action_setup a w =
     (case invoke InitWithBackend_call (Client_InitWithBackend (Client a)) w of
        (Some err, w1) \<Rightarrow> (Some err, w1)
      | (None, w1) \<Rightarrow>
          (case invoke (Import_call (Action.EnvName a))
                       (Client_Import (Client a) (Action.EnvName a)) w1 of
             (Some err, w2) \<Rightarrow> (Some err, w2)
           | (None, w2) \<Rightarrow> (None, w2)))"

text \<open>
  \<open>currentSerial\<close> returns \<open>(-1, err)\<close> on every failure. \<open>%s\<close> of the raw state prints its
  bytes. The type assertion \<open>.(float64)\<close> holds exactly for a \<open>VFloat64\<close>.
\<close>

definition currentSerial :: "golib \<Rightarrow> 's Action \<Rightarrow> 's world \<Rightarrow> (int \<times> error option) \<times> 's world" where
  "currentSerial lib a w =
     (case invoke (StatePull_call (Action.EnvName a))
                  (Client_StatePull (Client a) (Action.EnvName a)) w of
        (Inl err, w1) \<Rightarrow> ((- 1, Some err), w1)
      | (Inr rawState, w1) \<Rightarrow>
          (case json_Unmarshal lib rawState of
             Inl err \<Rightarrow>
               ((- 1, Some (errorString (''Failed to unmarshal JSON output.'' @ [CHR 0x0A]
                    @ ''Error: '' @ Error err @ [CHR 0x0A] @ ''Output: '' @ rawState))), w1)
           | Inr tfState \<Rightarrow>
               (case index_iface tfState ''serial'' of
                  VFloat64 serial \<Rightarrow> ((float64_to_int lib serial, None), w1)
                | other \<Rightarrow>
                    ((- 1, Some (errorString (''Expected number value for '' @ [CHR 0x27]
                         @ ''serial'' @ [CHR 0x27] @ '' but got '' @ [CHR 0x27]
                         @ fmt_GoSyntax lib other @ [CHR 0x27]))), w1))))"

text \<open>The loop over the workspace names sets the flag at every match and never clears it.\<close>

definition createWorkspaceIfNotExists :: "'s Action \<Rightarrow> 's world \<Rightarrow> error option \<times> 's world" where
  "createWorkspaceIfNotExists a w =
     (case invoke WorkspaceList_call (Client_WorkspaceList (Client a)) w of
        (Inl err, w1) \<Rightarrow> (Some err, w1)
      | (Inr workspaces, w1) \<Rightarrow>
          (let workspaceExists =
             foldl (\<lambda>found space. if space = Action.EnvName a then True else found)
                   False workspaces
           in if \<not> workspaceExists
              then invoke (WorkspaceNew_call (Action.EnvName a))
                          (Client_WorkspaceNew (Client a) (Action.EnvName a)) w1
              else (None, w1)))"

text \<open>
  \<open>attemptApply_body\<close> is the body of \<open>attemptApply\<close> between the opening of the log
  section and the deferred \<open>EndSection\<close>, which runs on every return.
\<close>

definition attemptApply_body :: "golib \<Rightarrow> 's Action \<Rightarrow> 's world \<Rightarrow> (Result \<times> error option) \<times> 's world" where
  "attemptApply_body lib a w =
     (case createWorkspaceIfNotExists a w of
        (Some err, w1) \<Rightarrow> ((Result_zero, Some err), w1)
      | (None, w1) \<Rightarrow>
          (case invoke Apply_call (Client_Apply (Client a)) w1 of
             (Some err, w2) \<Rightarrow> ((Result_zero, Some err), w2)
           | (None, w2) \<Rightarrow>
               (case currentSerial lib a w2 of
                  ((serial, Some err), w3) \<Rightarrow> ((Result_zero, Some err), w3)
                | ((serial, None), w3) \<Rightarrow>
                    (case invoke (Output_call (Action.EnvName a))
                                 (Client_Output (Client a) (Action.EnvName a)) w3 of
                       (Inl err, w4) \<Rightarrow> ((Result_zero, Some err), w4)
                     | (Inr clientOutput, w4) \<Rightarrow>
                         ((\<lparr>Result.Version = \<lparr>Version.EnvName = Action.EnvName a, Serial = serial,
                                         PlanOnly = False\<rparr>,
                            Output = clientOutput\<rparr>, None), w4)))))"

definition attemptApply :: "golib \<Rightarrow> 's Action \<Rightarrow> 's world \<Rightarrow> (Result \<times> error option) \<times> 's world" where
  "attemptApply lib a w =
     (case attemptApply_body lib a (emit (Logger_InfoSection ''Terraform Apply'') w) of
        (res, w1) \<Rightarrow> (res, emit Logger_EndSection w1))"

definition attemptDestroy_body :: "'s Action \<Rightarrow> 's world \<Rightarrow> (Result \<times> error option) \<times> 's world" where
  "attemptDestroy_body a w =
     (case invoke Destroy_call (Client_Destroy (Client a)) w of
        (Some err, w1) \<Rightarrow> ((Result_zero, Some err), w1)
      | (None, w1) \<Rightarrow>
          (case invoke (WorkspaceDelete_call (Action.EnvName a))
                       (Client_WorkspaceDelete (Client a) (Action.EnvName a)) w1 of
             (Some err, w2) \<Rightarrow> ((Result_zero, Some err), w2)
           | (None, w2) \<Rightarrow>
               ((\<lparr>Result.Version = \<lparr>Version.EnvName = Action.EnvName a, Serial = 0, PlanOnly = False\<rparr>,
                  Output = Map.empty\<rparr>, None), w2)))"

definition attemptDestroy :: "'s Action \<Rightarrow> 's world \<Rightarrow> (Result \<times> error option) \<times> 's world" where
  "attemptDestroy a w =
     (case attemptDestroy_body a (emit (Logger_WarnSection ''Terraform Destroy'') w) of
        (res, w1) \<Rightarrow> (res, emit Logger_EndSection w1))"

text \<open>
  \<open>Apply\<close>, statement by statement: the variable \<open>err\<close> is rewritten by the first \<open>if\<close>,
  then possibly by the rollback, and the pair \<open>(result, err)\<close> is returned.
\<close>

definition Apply :: "golib \<Rightarrow> 's Action \<Rightarrow> 's world \<Rightarrow> (Result \<times> error option) \<times> 's world" where
  "Apply lib a w =
     (case Action_setup a w of
        (Some err, w1) \<Rightarrow> ((Result_zero, Some err), w1)
      | (None, w1) \<Rightarrow>
          (case attemptApply lib a w1 of
             ((result, err0), w2) \<Rightarrow>
               (let (err1, w3) =
                      (case err0 of
                         Some e \<Rightarrow>
                           (Some (errorString (''Apply Error: '' @ Error e)),
                            emit (Logger_Error ''Failed To Run Terraform Apply!'') w2)
                       | None \<Rightarrow> (None, w2));
                    (err2, w4) =
                      (case err1 of
                         Some e1 \<Rightarrow>
                           (if DeleteOnFailure a then
                              (case attemptDestroy a
                                      (emit (Logger_Warn ''Cleaning Up Partially Created Resources...'') w3) of
                                 ((res', Some destroyErr), w') \<Rightarrow>
                                   (Some (errorString (Error e1 @ [CHR 0x0A] @ ''Destroy Error: ''
                                            @ Error destroyErr)),
                                    emit (Logger_Error ''Failed To Run Terraform Destroy!'') w')
                               | ((res', None), w') \<Rightarrow> (Some e1, w'))
                            else (Some e1, w3))
                       | None \<Rightarrow> (None, w3));
                    w5 = (case err2 of
                            None \<Rightarrow> emit (Logger_Success ''Successfully Ran Terraform Apply!'') w4
                          | Some e2 \<Rightarrow> w4)
                in ((result, err2), w5))))"

definition Destroy :: "'s Action \<Rightarrow> 's world \<Rightarrow> (Result \<times> error option) \<times> 's world" where
  "Destroy a w =
     (case Action_setup a w of
        (Some err, w1) \<Rightarrow> ((Result_zero, Some err), w1)
      | (None, w1) \<Rightarrow>
          (case attemptDestroy a w1 of
             ((result, err), w2) \<Rightarrow>
               ((result, err),
                (case err of
                   None \<Rightarrow> emit (Logger_Success ''Successfully Ran Terraform Destroy!'') w2
                 | Some e \<Rightarrow> w2))))"

section \<open>Contracts of the engine\<close>

text \<open>
  The engine behind \<open>Client\<close> is not code of the repository. Two claims relate the action
  to what the engine keeps; they are stated for every client that honours a contract.

  The workspace contract, for a set \<open>present s\<close> of workspace names kept in the engine
  state: \<open>WorkspaceList\<close> reports that set and does not change it, and a successful
  \<open>WorkspaceNew n\<close> leaves \<open>n\<close> in it.
\<close>

definition workspace_contract :: "'s Client \<Rightarrow> string \<Rightarrow> ('s \<Rightarrow> string set) \<Rightarrow> bool" where
  "workspace_contract c n present \<longleftrightarrow>
     (\<forall>s r s'. Client_WorkspaceList c s = (r, s') \<longrightarrow>
        present s' = present s \<and> (\<forall>ws. r = Inr ws \<longrightarrow> set ws = present s)) \<and>
     (\<forall>s s'. Client_WorkspaceNew c n s = (None, s') \<longrightarrow> n \<in> present s')"



section \<open>The \<open>in\<close> command: requests and responses\<close>

text \<open>
  The package \<open>in\<close> is given twice: the current \<open>Run\<close> with \<open>inWithBackend\<close> and
  \<open>inWithLegacyStorage\<close>, and an earlier \<open>Run\<close> that knows the legacy storage only. Their
  types are declared in other packages; the records below hold the fields that the code
  reads or writes.
\<close>

record Terraform =
  Source :: string
  OutputModule :: string
  StateFileLocalPath :: string
  StateFileRemotePath :: string

record InParams =
  Action :: string
  OutputModule :: string
  OutputStatefile :: bool

record 'st Source =
  Storage :: 'st
  Terraform :: Terraform
  BackendType :: string

record 'st InRequest =
  Source :: "'st Source"
  Version :: Version
  Params :: InParams

record 'v MetadataField =
  Name :: string
  Value :: 'v

record 'v InResponse =
  Version :: Version
  Metadata :: "'v MetadataField list"

definition InResponse_zero :: "'v InResponse" where
  "InResponse_zero = \<lparr>Version = Version_zero, Metadata = []\<rparr>"

record 'lw Runner =
  OutputDir :: string
  LogWriter :: 'lw

text \<open>
  Modelled from the spec: the constant \<open>models.DestroyAction\<close> is declared in the
  package \<open>models\<close>; the actions of a request are \<open>create\<close> and \<open>destroy\<close>.
\<close>

definition DestroyAction :: string where
  "DestroyAction = ''destroy''"

text \<open>
  Modelled from the spec: the method \<open>IsPlan\<close> of \<open>models.Version\<close> is declared in the
  package \<open>models\<close>; it tells whether the version denotes a plan-only request.
\<close>

definition IsPlan :: "Version \<Rightarrow> bool" where
  "IsPlan v = PlanOnly v"

section \<open>The \<open>in\<close> command: what it calls\<close>

text \<open>
  The storage driver, the state file, the client built by \<open>terraform.NewClient\<close>, the
  validation methods and the functions of \<open>os\<close>, \<open>ioutil\<close>, \<open>path\<close> and \<open>encoder\<close> are
  parameters, as the client of the action is: functions of a system state \<open>'s\<close>. The type
  \<open>'st\<close> is the storage model of a request, \<open>'sv\<close> is \<open>storage.Version\<close>, and \<open>'lw\<close> is the
  log writer. An open file is named by its path.
\<close>

record ('s, 'sv) Driver =
  Driver_Version :: "string \<Rightarrow> 's \<Rightarrow> (error + 'sv) \<times> 's"

record ('s, 'sv) StateFile =
  LocalPath :: string
  RemotePath :: string
  StorageDriver :: "('s, 'sv) Driver"

record 's InClient =
  InClient_InitWithBackend :: "string \<Rightarrow> 's \<Rightarrow> error option \<times> 's"
  InClient_WorkspaceList :: "'s \<Rightarrow> (error + string list) \<times> 's"
  InClient_Output :: "string \<Rightarrow> 's \<Rightarrow> (error + (string \<rightharpoonup> (string \<rightharpoonup> iface))) \<times> 's"
  InClient_OutputWithLegacyStorage :: "'s \<Rightarrow> (error + (string \<rightharpoonup> (string \<rightharpoonup> iface))) \<times> 's"
  InClient_Version :: "'s \<Rightarrow> (error + string) \<times> 's"
  InClient_StatePull :: "string \<Rightarrow> 's \<Rightarrow> (error + string) \<times> 's"

text \<open>
  \<open>range_keys m\<close> is the order in which a \<open>range\<close> over the map \<open>m\<close> visits its keys, which
  Go leaves open.
\<close>

record ('s, 'st, 'sv, 'lw) deps =
  Version_Validate :: "Version \<Rightarrow> error option"
  Storage_Validate :: "'st \<Rightarrow> error option"
  Terraform_Validate :: "Terraform \<Rightarrow> error option"
  os_TempDir :: string
  ioutil_TempDir :: "string \<Rightarrow> string \<Rightarrow> 's \<Rightarrow> (error + string) \<times> 's"
  os_RemoveAll :: "string \<Rightarrow> 's \<Rightarrow> error option \<times> 's"
  os_Create :: "string \<Rightarrow> 's \<Rightarrow> (error + string) \<times> 's"
  File_WriteString :: "string \<Rightarrow> string \<Rightarrow> 's \<Rightarrow> error option \<times> 's"
  File_Close :: "string \<Rightarrow> 's \<Rightarrow> error option \<times> 's"
  ioutil_WriteFile :: "string \<Rightarrow> string \<Rightarrow> 's \<Rightarrow> error option \<times> 's"
  ioutil_ReadFile :: "string \<Rightarrow> 's \<Rightarrow> (error + string) \<times> 's"
  path_Join :: "string \<Rightarrow> string \<Rightarrow> string"
  JSONEncoder_Encode :: "string \<Rightarrow> (string \<rightharpoonup> iface) \<Rightarrow> 's \<Rightarrow> error option \<times> 's"
  range_keys :: "(string \<rightharpoonup> string) \<Rightarrow> string list"
  storage_BuildDriver :: "'st \<Rightarrow> ('s, 'sv) Driver"
  StorageVersion_IsZero :: "'sv \<Rightarrow> bool"
  StateFile_Download :: "('s, 'sv) StateFile \<Rightarrow> 's \<Rightarrow> (error + 'sv) \<times> 's"
  NewVersionFromLegacyStorage :: "'sv \<Rightarrow> Version"
  terraform_NewClient :: "Terraform \<Rightarrow> 'lw \<Rightarrow> 's InClient"

datatype in_call =
    TempDir_call string string
  | RemoveAll_call string
  | Create_call string
  | WriteString_call string string
  | Close_call string
  | WriteFile_call string string
  | ReadFile_call string
  | Encode_call string
  | Driver_Version_call string
  | StateFile_Download_call string string
  | DownloadStateFileIfExists_call
  | NewClient_InitWithBackend_call string
  | NewClient_WorkspaceList_call
  | NewClient_Output_call string
  | NewClient_OutputWithLegacyStorage_call
  | NewClient_Version_call
  | NewClient_StatePull_call string
  | OldClient_Output_call

record 's in_world =
  sys :: 's
  calls :: "in_call list"

definition in_invoke :: "in_call \<Rightarrow> ('s \<Rightarrow> 'r \<times> 's) \<Rightarrow> 's in_world \<Rightarrow> 'r \<times> 's in_world" where
  "in_invoke c op w =
     (case op (sys w) of (r, s') \<Rightarrow> (r, \<lparr>sys = s', calls = calls w @ [c]\<rparr>))"

section \<open>The \<open>in\<close> command: the current code\<close>

definition quoted :: "string \<Rightarrow> string" where
  "quoted s = [CHR 0x27] @ s @ [CHR 0x27]"

text \<open>The two lines that end both "does not exist" messages.\<close>

definition destroy_hint :: string where
  "destroy_hint =
     [CHR 0x0A] @ ''If you intended to run the '' @ [CHR 0x60] @ ''destroy'' @ [CHR 0x60]
       @ '' action, add '' @ [CHR 0x60] @ ''put.get_params.action: destroy'' @ [CHR 0x60] @ ''.''
     @ [CHR 0x0A] @ ''This is a temporary requirement until Concourse supports a ''
       @ [CHR 0x60] @ ''delete'' @ [CHR 0x60] @ '' step.''"

text \<open>
  \<open>write_metadata\<close> is the block that \<open>inWithBackend\<close> and \<open>inWithLegacyStorage\<close> share word
  for word: create the \<open>metadata\<close> file, encode the raw outputs into it, list the sanitized
  outputs as metadata fields, and append the version of the engine.
\<close>

definition write_metadata ::
  "('s, 'st, 'sv, 'lw) deps \<Rightarrow> golib \<Rightarrow> 'lw Runner \<Rightarrow> 's InClient \<Rightarrow> Result \<Rightarrow> 's in_world
     \<Rightarrow> (error + string MetadataField list) \<times> 's in_world" where
  "write_metadata d lib r client result w =
     (let outputFilepath = path_Join d (OutputDir r) ''metadata'' in
      case in_invoke (Create_call outputFilepath) (os_Create d outputFilepath) w of
        (Inl err, w1) \<Rightarrow>
          (Inl (errorString (''Failed to create output file at path '' @ quoted outputFilepath
                  @ '': '' @ Error err)), w1)
      | (Inr outputFile, w1) \<Rightarrow>
          (case in_invoke (Encode_call outputFile)
                  (JSONEncoder_Encode d outputFile (RawOutput result)) w1 of
             (Some err, w2) \<Rightarrow>
               (Inl (errorString (''Failed to write output file: '' @ Error err)), w2)
           | (None, w2) \<Rightarrow>
               (let sanitized = SanitizedOutput lib result;
                    metadata =
                      List.map_filter
                        (\<lambda>key. case sanitized key of
                                  None \<Rightarrow> None
                                | Some val \<Rightarrow> Some \<lparr>Name = key, Value = val\<rparr>)
                        (range_keys d sanitized)
                in case in_invoke NewClient_Version_call (InClient_Version client) w2 of
                     (Inl err, w3) \<Rightarrow> (Inl err, w3)
                   | (Inr tfVersion, w3) \<Rightarrow>
                       (Inr (metadata @ [\<lparr>Name = ''terraform_version'', Value = tfVersion\<rparr>]),
                        w3))))"

definition inWithBackend ::
  "('s, 'st, 'sv, 'lw) deps \<Rightarrow> golib \<Rightarrow> 'lw Runner \<Rightarrow> 'st InRequest \<Rightarrow> string \<Rightarrow> 's in_world
     \<Rightarrow> (string InResponse \<times> error option) \<times> 's in_world" where
  "inWithBackend d lib r req tmpDir w =
     (if IsPlan (InRequest.Version req)
      then ((\<lparr>Version = InRequest.Version req, Metadata = []\<rparr>, None), w)
      else
        (let terraformModel = Source.Terraform (InRequest.Source req) in
         case Terraform_Validate d terraformModel of
           Some err \<Rightarrow>
             ((InResponse_zero,
               Some (errorString (''Failed to validate terraform Model: '' @ Error err))), w)
         | None \<Rightarrow>
             (let terraformModel1 = terraformModel\<lparr>Terraform.Source := ''.''\<rparr>;
                  terraformModel2 =
                    (if InParams.OutputModule (Params req) \<noteq> []
                     then terraformModel1\<lparr>Terraform.OutputModule :=
                            InParams.OutputModule (Params req)\<rparr>
                     else terraformModel1);
                  client = terraform_NewClient d terraformModel2 (LogWriter r);
                  targetEnvName = Version.EnvName (InRequest.Version req)
              in case in_invoke (NewClient_InitWithBackend_call targetEnvName)
                        (InClient_InitWithBackend client targetEnvName) w of
                   (Some err, w1) \<Rightarrow> ((InResponse_zero, Some err), w1)
                 | (None, w1) \<Rightarrow>
                     (case in_invoke NewClient_WorkspaceList_call
                             (InClient_WorkspaceList client) w1 of
                        (Inl err, w2) \<Rightarrow> ((InResponse_zero, Some err), w2)
                      | (Inr spaces, w2) \<Rightarrow>
                          (let foundEnv =
                             foldl (\<lambda>found space. if space = targetEnvName then True else found)
                                   False spaces
                           in if \<not> foundEnv
                              then ((InResponse_zero,
                                     Some (errorString (''Workspace '' @ quoted targetEnvName
                                        @ '' does not exist in backend.'' @ destroy_hint))), w2)
                              else
                                (case in_invoke (NewClient_Output_call targetEnvName)
                                        (InClient_Output client targetEnvName) w2 of
                                   (Inl err, w3) \<Rightarrow>
                                     ((InResponse_zero,
                                       Some (errorString (''Failed to parse terraform output.''
                                          @ [CHR 0x0A] @ ''Error: '' @ Error err))), w3)
                                 | (Inr tfOutput, w3) \<Rightarrow>
                                     (case write_metadata d lib r client
                                             \<lparr>Result.Version = Version_zero, Output = tfOutput\<rparr> w3 of
                                        (Inl err, w4) \<Rightarrow> ((InResponse_zero, Some err), w4)
                                      | (Inr metadata, w4) \<Rightarrow>
                                          (case
                                             (if OutputStatefile (Params req) then
                                                (let stateFilePath =
                                                       path_Join d (OutputDir r) ''terraform.tfstate''
                                                 in case in_invoke (NewClient_StatePull_call targetEnvName)
                                                           (InClient_StatePull client targetEnvName) w4 of
                                                      (Inl err, w5) \<Rightarrow> (Some err, w5)
                                                    | (Inr stateContents, w5) \<Rightarrow>
                                                        in_invoke (WriteFile_call stateFilePath stateContents)
                                                          (ioutil_WriteFile d stateFilePath stateContents) w5)
                                              else (None, w4)) of
                                             (Some err, w6) \<Rightarrow> ((InResponse_zero, Some err), w6)
                                           | (None, w6) \<Rightarrow>
                                               ((\<lparr>Version = InRequest.Version req,
                                                  Metadata = metadata\<rparr>, None), w6)))))))))"

definition inWithLegacyStorage ::
  "('s, 'st, 'sv, 'lw) deps \<Rightarrow> golib \<Rightarrow> 'lw Runner \<Rightarrow> 'st InRequest \<Rightarrow> string \<Rightarrow> 's in_world
     \<Rightarrow> (string InResponse \<times> error option) \<times> 's in_world" where
  "inWithLegacyStorage d lib r req tmpDir w =
     (let storageModel = Storage (InRequest.Source req) in
      case Storage_Validate d storageModel of
        Some err \<Rightarrow>
          ((InResponse_zero,
            Some (errorString (''Failed to validate storage Model: '' @ Error err))), w)
      | None \<Rightarrow>
          (let storageDriver = storage_BuildDriver d storageModel;
               stateFilename = Version.EnvName (InRequest.Version req) @ ''.tfstate''
           in case in_invoke (Driver_Version_call stateFilename)
                     (Driver_Version storageDriver stateFilename) w of
                (Inl err, w1) \<Rightarrow>
                  ((InResponse_zero,
                    Some (errorString (''Failed to check for existing state file: ''
                            @ Error err))), w1)
              | (Inr storageVersion, w1) \<Rightarrow>
                  (if StorageVersion_IsZero d storageVersion then
                     (if IsPlan (InRequest.Version req)
                      then ((\<lparr>Version = InRequest.Version req, Metadata = []\<rparr>, None), w1)
                      else ((InResponse_zero,
                             Some (errorString (''State file does not exist with key ''
                               @ quoted stateFilename @ ''.'' @ destroy_hint))), w1))
                   else
                     (let terraformModel =
                            \<lparr>Terraform.Source = [], OutputModule = [],
                             StateFileLocalPath = path_Join d tmpDir ''terraform.tfstate'',
                             StateFileRemotePath = stateFilename\<rparr>;
                          terraformModel1 =
                            (if InParams.OutputModule (Params req) \<noteq> []
                             then terraformModel\<lparr>Terraform.OutputModule :=
                                    InParams.OutputModule (Params req)\<rparr>
                             else terraformModel)
                      in case Terraform_Validate d terraformModel1 of
                           Some err \<Rightarrow>
                             ((InResponse_zero,
                               Some (errorString (''Failed to validate terraform Model: ''
                                       @ Error err))), w1)
                         | None \<Rightarrow>
                             (let client = terraform_NewClient d terraformModel1 (LogWriter r);
                                  stateFile =
                                    \<lparr>LocalPath = StateFileLocalPath terraformModel1,
                                     RemotePath = StateFileRemotePath terraformModel1,
                                     StorageDriver = storageDriver\<rparr>
                              in case in_invoke
                                        (StateFile_Download_call (LocalPath stateFile) (RemotePath stateFile))
                                        (StateFile_Download d stateFile) w1 of
                                   (Inl err, w2) \<Rightarrow>
                                     ((InResponse_zero,
                                       Some (errorString
                                         (''Failed to download state file from storage backend: ''
                                          @ Error err))), w2)
                                 | (Inr storageVersion1, w2) \<Rightarrow>
                                     (let version = NewVersionFromLegacyStorage d storageVersion1
                                      in case in_invoke NewClient_OutputWithLegacyStorage_call
                                                (InClient_OutputWithLegacyStorage client) w2 of
                                           (Inl err, w3) \<Rightarrow>
                                             ((InResponse_zero,
                                               Some (errorString (''Failed to parse terraform output.''
                                                  @ [CHR 0x0A] @ ''Error: '' @ Error err))), w3)
                                         | (Inr tfOutput, w3) \<Rightarrow>
                                             (case write_metadata d lib r client
                                                     \<lparr>Result.Version = Version_zero, Output = tfOutput\<rparr> w3 of
                                                (Inl err, w4) \<Rightarrow> ((InResponse_zero, Some err), w4)
                                              | (Inr metadata, w4) \<Rightarrow>
                                                  (case
                                                     (if OutputStatefile (Params req) then
                                                        (let stateFilePath =
                                                               path_Join d (OutputDir r) ''terraform.tfstate''
                                                         in case in_invoke
                                                                   (ReadFile_call (StateFileLocalPath terraformModel1))
                                                                   (ioutil_ReadFile d (StateFileLocalPath terraformModel1)) w4 of
                                                              (Inl err, w5) \<Rightarrow> (Some err, w5)
                                                            | (Inr stateContents, w5) \<Rightarrow>
                                                                in_invoke (WriteFile_call stateFilePath stateContents)
                                                                  (ioutil_WriteFile d stateFilePath stateContents) w5)
                                                      else (None, w4)) of
                                                     (Some err, w6) \<Rightarrow> ((InResponse_zero, Some err), w6)
                                                   | (None, w6) \<Rightarrow>
                                                       ((\<lparr>Version = version,
                                                          Metadata = metadata\<rparr>, None), w6)))))))))"

text \<open>
  \<open>Run_body\<close> is \<open>Run\<close> from the creation of the temporary directory on; the deferred
  \<open>nameFile.Close()\<close> runs at its return, and the deferred \<open>os.RemoveAll(tmpDir)\<close> after it.
\<close>

definition Run_body ::
  "('s, 'st, 'sv, 'lw) deps \<Rightarrow> golib \<Rightarrow> 'lw Runner \<Rightarrow> 'st InRequest \<Rightarrow> string \<Rightarrow> 's in_world
     \<Rightarrow> (string InResponse \<times> error option) \<times> 's in_world" where
  "Run_body d lib r req tmpDir w =
     (case (if BackendType (InRequest.Source req) \<noteq> []
            then inWithBackend d lib r req tmpDir w
            else inWithLegacyStorage d lib r req tmpDir w) of
        ((resp, Some err), w1) \<Rightarrow> ((InResponse_zero, Some err), w1)
      | ((resp, None), w1) \<Rightarrow>
          (let nameFilepath = path_Join d (OutputDir r) ''name'' in
           case in_invoke (Create_call nameFilepath) (os_Create d nameFilepath) w1 of
             (Inl err, w2) \<Rightarrow>
               ((InResponse_zero,
                 Some (errorString (''Failed to create name file at path '' @ quoted nameFilepath
                         @ '': '' @ Error err))), w2)
           | (Inr nameFile, w2) \<Rightarrow>
               (case in_invoke (WriteString_call nameFile (Version.EnvName (InRequest.Version req)))
                       (File_WriteString d nameFile (Version.EnvName (InRequest.Version req))) w2 of
                  (ignored, w3) \<Rightarrow>
                    ((resp, None),
                     snd (in_invoke (Close_call nameFile) (File_Close d nameFile) w3)))))"

definition Run ::
  "('s, 'st, 'sv, 'lw) deps \<Rightarrow> golib \<Rightarrow> 'lw Runner \<Rightarrow> 'st InRequest \<Rightarrow> 's in_world
     \<Rightarrow> (string InResponse \<times> error option) \<times> 's in_world" where
  "Run d lib r req w =
     (case Version_Validate d (InRequest.Version req) of
        Some err \<Rightarrow>
          ((InResponse_zero, Some (errorString (''Invalid Version request: '' @ Error err))), w)
      | None \<Rightarrow>
          (if Action (Params req) = DestroyAction
           then ((\<lparr>Version = InRequest.Version req, Metadata = []\<rparr>, None), w)
           else
             (case in_invoke (TempDir_call (os_TempDir d) ''terraform-resource-in'')
                     (ioutil_TempDir d (os_TempDir d) ''terraform-resource-in'') w of
                (Inl err, w1) \<Rightarrow>
                  ((InResponse_zero,
                    Some (errorString (''Failed to create tmp dir at '' @ quoted (os_TempDir d)))),
                   w1)
              | (Inr tmpDir, w1) \<Rightarrow>
                  (case Run_body d lib r req tmpDir w1 of
                     (res, w2) \<Rightarrow>
                       (res, snd (in_invoke (RemoveAll_call tmpDir) (os_RemoveAll d tmpDir) w2))))))"

section \<open>The \<open>in\<close> command: the earlier code\<close>

text \<open>
  The earlier \<open>Run\<close> builds a \<open>terraform.Model\<close> and a \<open>terraform.Client\<close> struct and calls
  the client's \<open>DownloadStateFileIfExists\<close> and \<open>Output\<close>. What it shares with the current
  code is taken from \<open>deps\<close>; the rest are the parameters below. The type \<open>'v\<close> is the type
  of an output value, which is also the type of a metadata value here.
\<close>

record Model =
  StateFileLocalPath :: string
  StateFileRemotePath :: string

record ('s, 'sv) terraform_Client =
  Model :: Model
  StorageDriver :: "('s, 'sv) Driver"

record ('s, 'sv, 'v) deps_part_000 =
  Model_Validate :: "Model \<Rightarrow> error option"
  Client_DownloadStateFileIfExists :: "('s, 'sv) terraform_Client \<Rightarrow> 's \<Rightarrow> (error + 'sv) \<times> 's"
  Client_Output_part_000 :: "('s, 'sv) terraform_Client \<Rightarrow> 's \<Rightarrow> (error + (string \<rightharpoonup> 'v)) \<times> 's"
  NewVersion :: "'sv \<Rightarrow> Version"
  json_Encoder_Encode :: "string \<Rightarrow> (string \<rightharpoonup> 'v) \<Rightarrow> 's \<Rightarrow> error option \<times> 's"
  range_keys_part_000 :: "(string \<rightharpoonup> 'v) \<Rightarrow> string list"

definition Run_body_part_000 ::
  "('s, 'st, 'sv, 'lw) deps \<Rightarrow> ('s, 'sv, 'v) deps_part_000 \<Rightarrow> 'lw Runner \<Rightarrow> 'st InRequest
     \<Rightarrow> string \<Rightarrow> 's in_world \<Rightarrow> ('v InResponse \<times> error option) \<times> 's in_world" where
  "Run_body_part_000 d d0 r req tmpDir w =
     (let storageModel = Storage (InRequest.Source req) in
      case Storage_Validate d storageModel of
        Some err \<Rightarrow>
          ((InResponse_zero,
            Some (errorString (''Failed to validate storage Model: '' @ Error err))), w)
      | None \<Rightarrow>
          (let storageDriver = storage_BuildDriver d storageModel;
               stateFilename = Version.EnvName (InRequest.Version req) @ ''.tfstate'';
               terraformModel =
                 \<lparr>Model.StateFileLocalPath = path_Join d tmpDir ''terraform.tfstate'',
                  StateFileRemotePath = stateFilename\<rparr>
           in case Model_Validate d0 terraformModel of
                Some err \<Rightarrow>
                  ((InResponse_zero,
                    Some (errorString (''Failed to validate terraform Model: '' @ Error err))), w)
              | None \<Rightarrow>
                  (let client = \<lparr>Model = terraformModel, StorageDriver = storageDriver\<rparr>
                   in case in_invoke DownloadStateFileIfExists_call
                             (Client_DownloadStateFileIfExists d0 client) w of
                        (Inl err, w1) \<Rightarrow>
                          ((InResponse_zero,
                            Some (errorString
                              (''Failed to download state file from storage backend: ''
                               @ Error err))), w1)
                      | (Inr storageVersion, w1) \<Rightarrow>
                          (if StorageVersion_IsZero d storageVersion
                           then ((InResponse_zero,
                                  Some (errorString (''StateFile does not exist with key ''
                                          @ quoted stateFilename))), w1)
                           else
                             (let version = NewVersion d0 storageVersion
                              in case in_invoke OldClient_Output_call
                                        (Client_Output_part_000 d0 client) w1 of
                                   (Inl err, w2) \<Rightarrow>
                                     ((InResponse_zero,
                                       Some (errorString (''Failed to parse terraform output.''
                                          @ [CHR 0x0A] @ ''Error: '' @ Error err))), w2)
                                 | (Inr output, w2) \<Rightarrow>
                                     (let outputFilepath = path_Join d (OutputDir r) ''metadata''
                                      in case in_invoke (Create_call outputFilepath)
                                                (os_Create d outputFilepath) w2 of
                                           (Inl err, w3) \<Rightarrow>
                                             ((InResponse_zero,
                                               Some (errorString
                                                 (''Failed to create output file at path ''
                                                  @ quoted outputFilepath @ '': '' @ Error err))), w3)
                                         | (Inr outputFile, w3) \<Rightarrow>
                                             (case in_invoke (Encode_call outputFile)
                                                     (json_Encoder_Encode d0 outputFile output) w3 of
                                                (Some err, w4) \<Rightarrow>
                                                  ((InResponse_zero,
                                                    Some (errorString (''Failed to write output file: ''
                                                            @ Error err))), w4)
                                              | (None, w4) \<Rightarrow>
                                                  (let metadata =
                                                         List.map_filter
                                                           (\<lambda>key. case output key of
                                                                     None \<Rightarrow> None
                                                                   | Some val \<Rightarrow>
                                                                       Some \<lparr>Name = key, Value = val\<rparr>)
                                                           (range_keys_part_000 d0 output)
                                                   in ((\<lparr>Version = version, Metadata = metadata\<rparr>,
                                                        None), w4)))))))))"

definition Run_part_000 ::
  "('s, 'st, 'sv, 'lw) deps \<Rightarrow> ('s, 'sv, 'v) deps_part_000 \<Rightarrow> 'lw Runner \<Rightarrow> 'st InRequest
     \<Rightarrow> 's in_world \<Rightarrow> ('v InResponse \<times> error option) \<times> 's in_world" where
  "Run_part_000 d d0 r req w =
     (case Version_Validate d (InRequest.Version req) of
        Some err \<Rightarrow>
          ((InResponse_zero, Some (errorString (''Invalid Version request: '' @ Error err))), w)
      | None \<Rightarrow>
          (if Action (Params req) = DestroyAction
           then ((\<lparr>Version = InRequest.Version req, Metadata = []\<rparr>, None), w)
           else
             (case in_invoke (TempDir_call (os_TempDir d) ''terraform-resource-in'')
                     (ioutil_TempDir d (os_TempDir d) ''terraform-resource-in'') w of
                (Inl err, w1) \<Rightarrow>
                  ((InResponse_zero,
                    Some (errorString (''Failed to create tmp dir at '' @ quoted (os_TempDir d)))),
                   w1)
              | (Inr tmpDir, w1) \<Rightarrow>
                  (case Run_body_part_000 d d0 r req tmpDir w1 of
                     (res, w2) \<Rightarrow>
                       (res, snd (in_invoke (RemoveAll_call tmpDir) (os_RemoveAll d tmpDir) w2))))))"

section \<open>Instances for evaluating the model\<close>

text \<open>
  The examples below run the model on concrete inputs. They need an instance of every
  parameter. Four state documents: with serial 1, with serial 2, with a string as serial,
  and without a serial.
\<close>

definition doc_serial_1 :: string where
  "doc_serial_1 = ''{'' @ [CHR 0x22] @ ''serial'' @ [CHR 0x22] @ '': 1}''"

definition doc_serial_2 :: string where
  "doc_serial_2 = ''{'' @ [CHR 0x22] @ ''serial'' @ [CHR 0x22] @ '': 2}''"

definition doc_serial_text :: string where
  "doc_serial_text = ''{'' @ [CHR 0x22] @ ''serial'' @ [CHR 0x22] @ '': '' @ [CHR 0x22] @ ''1'' @ [CHR 0x22] @ ''}''"

definition doc_no_serial :: string where
  "doc_no_serial = ''{'' @ [CHR 0x22] @ ''version'' @ [CHR 0x22] @ '': 4}''"

text \<open>
  A table-driven stand-in for the library functions: it encodes strings without characters
  that JSON escapes, booleans and \<open>nil\<close>, refuses a value of another Go type as
  \<open>json.Marshal\<close> does, decodes the four documents and \<open>{}\<close>, and truncates a number
  towards zero.
\<close>

definition stub_golib :: golib where
  "stub_golib = \<lparr>
     json_Marshal = (\<lambda>v. case v of
         VString s \<Rightarrow> Inr ([CHR 0x22] @ s @ [CHR 0x22])
       | VBool b \<Rightarrow> Inr (if b then ''true'' else ''false'')
       | VNil \<Rightarrow> Inr ''null''
       | VOther t \<Rightarrow> Inl (errorString (''json: unsupported type: '' @ t))
       | _ \<Rightarrow> Inl (errorString ''json: value outside the table'')),
     json_Unmarshal = (\<lambda>raw.
         if raw = doc_serial_1 then Inr [''serial'' \<mapsto> VFloat64 1]
         else if raw = doc_serial_2 then Inr [''serial'' \<mapsto> VFloat64 2]
         else if raw = doc_serial_text then Inr [''serial'' \<mapsto> VString ''1'']
         else if raw = doc_no_serial then Inr [''version'' \<mapsto> VFloat64 4]
         else if raw = ''{}'' then Inr Map.empty
         else Inl (errorString ''unexpected end of JSON input'')),
     fmt_GoSyntax = (\<lambda>v. case v of
         VNil \<Rightarrow> ''<nil>''
       | VString s \<Rightarrow> [CHR 0x22] @ s @ [CHR 0x22]
       | _ \<Rightarrow> ''?''),
     float64_to_int = (\<lambda>x. if 0 \<le> x then \<lfloor>x\<rfloor> else \<lceil>x\<rceil>)\<rparr>"

text \<open>
  A scripted client, in the manner of the fakes that a test suite injects through the
  \<open>Client\<close> interface. Its engine keeps the list of workspaces and the state document.
  \<open>fails\<close> names the calls that return an error. \<open>WorkspaceNew\<close> refuses a name that
  exists, \<open>Apply\<close> moves the state document to the next serial, \<open>StatePull\<close> returns the
  document.
\<close>

record fake_engine =
  spaces :: "string list"
  state_doc :: string

definition next_doc :: "string \<Rightarrow> string" where
  "next_doc d =
     (if d = ''{}'' then doc_serial_1 else if d = doc_serial_1 then doc_serial_2 else d)"

definition fake_Client ::
  "(event \<Rightarrow> error option) \<Rightarrow> (string \<rightharpoonup> (string \<rightharpoonup> iface)) \<Rightarrow> fake_engine Client" where
  "fake_Client fails outs = \<lparr>
     Client_InitWithBackend = (\<lambda>s. (fails InitWithBackend_call, s)),
     Client_Import = (\<lambda>n s. (fails (Import_call n), s)),
     Client_WorkspaceList = (\<lambda>s.
        (case fails WorkspaceList_call of Some e \<Rightarrow> Inl e | None \<Rightarrow> Inr (spaces s), s)),
     Client_WorkspaceNew = (\<lambda>n s.
        case fails (WorkspaceNew_call n) of
          Some e \<Rightarrow> (Some e, s)
        | None \<Rightarrow>
            if n \<in> set (spaces s)
            then (Some (errorString (''Workspace '' @ n @ '' already exists'')), s)
            else (None, s\<lparr>spaces := spaces s @ [n]\<rparr>)),
     Client_WorkspaceDelete = (\<lambda>n s.
        case fails (WorkspaceDelete_call n) of
          Some e \<Rightarrow> (Some e, s)
        | None \<Rightarrow> (None, s\<lparr>spaces := removeAll n (spaces s)\<rparr>)),
     Client_Apply = (\<lambda>s.
        case fails Apply_call of
          Some e \<Rightarrow> (Some e, s)
        | None \<Rightarrow> (None, s\<lparr>state_doc := next_doc (state_doc s)\<rparr>)),
     Client_Destroy = (\<lambda>s. (fails Destroy_call, s)),
     Client_StatePull = (\<lambda>n s.
        (case fails (StatePull_call n) of Some e \<Rightarrow> Inl e | None \<Rightarrow> Inr (state_doc s), s)),
     Client_Output = (\<lambda>n s.
        (case fails (Output_call n) of Some e \<Rightarrow> Inl e | None \<Rightarrow> Inr outs, s))\<rparr>"

definition no_failure :: "event \<Rightarrow> error option" where
  "no_failure ev = None"

definition failing :: "event \<Rightarrow> string \<Rightarrow> event \<Rightarrow> error option" where
  "failing bad msg ev = (if ev = bad then Some (errorString msg) else None)"

text \<open>
  The outputs of the example in the specification, and one more whose value is a Go
  channel, which \<open>json.Marshal\<close> refuses.
\<close>

definition example_outputs :: "string \<rightharpoonup> (string \<rightharpoonup> iface)" where
  "example_outputs =
     [''pw'' \<mapsto> [''value'' \<mapsto> VString ''secret123'', ''sensitive'' \<mapsto> VBool True],
      ''url'' \<mapsto> [''value'' \<mapsto> VString ''http://x'', ''sensitive'' \<mapsto> VBool False],
      ''conn'' \<mapsto> [''value'' \<mapsto> VOther ''chan int'']]"

text \<open>
  The action of the examples, for the environment \<open>env\<close>, and the worlds it runs in:
  \<open>fresh_world\<close> has the default workspace only and an empty state.
\<close>

definition fake_Action :: "(event \<Rightarrow> error option) \<Rightarrow> bool \<Rightarrow> fake_engine Action" where
  "fake_Action fails dof =
     \<lparr>Client = fake_Client fails example_outputs, EnvName = ''env'', DeleteOnFailure = dof\<rparr>"

definition fresh_world :: "fake_engine world" where
  "fresh_world = \<lparr>engine = \<lparr>spaces = [''default''], state_doc = ''{}''\<rparr>, events = []\<rparr>"

definition fake_world :: "string list \<Rightarrow> string \<Rightarrow> event list \<Rightarrow> fake_engine world" where
  "fake_world ws d evs = \<lparr>engine = \<lparr>spaces = ws, state_doc = d\<rparr>, events = evs\<rparr>"

definition example_Result :: Result where
  "example_Result = \<lparr>Result.Version = Version_zero, Output = example_outputs\<rparr>"

text \<open>The serial that the scripted engine keeps: the one of its state document.\<close>

definition fake_serial :: "fake_engine \<Rightarrow> int" where
  "fake_serial s =
     (if state_doc s = doc_serial_1 then 1 else if state_doc s = doc_serial_2 then 2 else 0)"

text \<open>
  A second scripted client, closer to the native backend: the engine's \<open>Destroy\<close> writes
  the next state document, and \<open>WorkspaceDelete\<close> removes the workspace together with its
  state. The other methods are those of \<open>fake_Client\<close>.
\<close>

definition native_Client ::
  "(event \<Rightarrow> error option) \<Rightarrow> (string \<rightharpoonup> (string \<rightharpoonup> iface)) \<Rightarrow> fake_engine Client" where
  "native_Client fails outs = (fake_Client fails outs)\<lparr>
     Client_WorkspaceDelete := (\<lambda>n s.
        case fails (WorkspaceDelete_call n) of
          Some e \<Rightarrow> (Some e, s)
        | None \<Rightarrow> (None, \<lparr>spaces = removeAll n (spaces s), state_doc = ''{}''\<rparr>)),
     Client_Destroy := (\<lambda>s.
        case fails Destroy_call of
          Some e \<Rightarrow> (Some e, s)
        | None \<Rightarrow> (None, s\<lparr>state_doc := next_doc (state_doc s)\<rparr>))\<rparr>"

definition native_Action :: "(event \<Rightarrow> error option) \<Rightarrow> bool \<Rightarrow> fake_engine Action" where
  "native_Action fails dof =
     \<lparr>Client = native_Client fails example_outputs, EnvName = ''env'', DeleteOnFailure = dof\<rparr>"

text \<open>
  An instance of the parameters of the \<open>in\<close> command, in the manner of a test double: the
  system state lists the workspaces of the backend and the version token of every stored
  state file (the empty token stands for "absent"); a version is rejected when its
  \<open>EnvName\<close> is empty; files are created and written without error.
\<close>

record fake_sys =
  backend_workspaces :: "string list"
  stored_versions :: "string \<rightharpoonup> string"

definition stored_version :: "fake_sys \<Rightarrow> string \<Rightarrow> string" where
  "stored_version s key = (case stored_versions s key of None \<Rightarrow> [] | Some v \<Rightarrow> v)"

definition fake_InClient :: "fake_sys InClient" where
  "fake_InClient = \<lparr>
     InClient_InitWithBackend = (\<lambda>env s. (None, s)),
     InClient_WorkspaceList = (\<lambda>s. (Inr (backend_workspaces s), s)),
     InClient_Output = (\<lambda>env s. (Inr example_outputs, s)),
     InClient_OutputWithLegacyStorage = (\<lambda>s. (Inr example_outputs, s)),
     InClient_Version = (\<lambda>s. (Inr ''0.12.6'', s)),
     InClient_StatePull = (\<lambda>env s. (Inr doc_serial_1, s))\<rparr>"

definition fake_deps :: "(fake_sys, unit, string, unit) deps" where
  "fake_deps = \<lparr>
     Version_Validate = (\<lambda>v.
        if Version.EnvName v = [] then Some (errorString ''env_name is required'') else None),
     Storage_Validate = (\<lambda>st. None),
     Terraform_Validate = (\<lambda>m. None),
     os_TempDir = ''/tmp'',
     ioutil_TempDir = (\<lambda>dir prefix s. (Inr (dir @ ''/'' @ prefix), s)),
     os_RemoveAll = (\<lambda>p s. (None, s)),
     os_Create = (\<lambda>p s. (Inr p, s)),
     File_WriteString = (\<lambda>f txt s. (None, s)),
     File_Close = (\<lambda>f s. (None, s)),
     ioutil_WriteFile = (\<lambda>p c s. (None, s)),
     ioutil_ReadFile = (\<lambda>p s. (Inr doc_serial_1, s)),
     path_Join = (\<lambda>a b. a @ ''/'' @ b),
     JSONEncoder_Encode = (\<lambda>f m s. (None, s)),
     range_keys = (\<lambda>m. filter (\<lambda>k. m k \<noteq> None) [''conn'', ''pw'', ''url'']),
     storage_BuildDriver = (\<lambda>st. \<lparr>Driver_Version = (\<lambda>key s. (Inr (stored_version s key), s))\<rparr>),
     StorageVersion_IsZero = (\<lambda>v. v = []),
     StateFile_Download = (\<lambda>f s. (Inr (stored_version s (RemotePath f)), s)),
     NewVersionFromLegacyStorage = (\<lambda>v. \<lparr>Version.EnvName = v, Serial = 0, PlanOnly = False\<rparr>),
     terraform_NewClient = (\<lambda>m lw. fake_InClient)\<rparr>"

definition fake_deps_part_000 :: "(fake_sys, string, string) deps_part_000" where
  "fake_deps_part_000 = \<lparr>
     Model_Validate = (\<lambda>m. None),
     Client_DownloadStateFileIfExists = (\<lambda>c s.
        (Inr (stored_version s (Model.StateFileRemotePath (Model c))), s)),
     Client_Output_part_000 = (\<lambda>c s. (Inr [''url'' \<mapsto> ''http://x''], s)),
     NewVersion = (\<lambda>v. \<lparr>Version.EnvName = v, Serial = 0, PlanOnly = False\<rparr>),
     json_Encoder_Encode = (\<lambda>f m s. (None, s)),
     range_keys_part_000 = (\<lambda>m. filter (\<lambda>k. m k \<noteq> None) [''url''])\<rparr>"

definition fake_Runner :: "unit Runner" where
  "fake_Runner = \<lparr>OutputDir = ''/out'', LogWriter = ()\<rparr>"

definition fake_request :: "string \<Rightarrow> bool \<Rightarrow> string \<Rightarrow> string \<Rightarrow> unit InRequest" where
  "fake_request env plan backend act = \<lparr>
     Source = \<lparr>Storage = (),
               Terraform = \<lparr>Terraform.Source = ''src'', OutputModule = [],
                            StateFileLocalPath = [], StateFileRemotePath = []\<rparr>,
               BackendType = backend\<rparr>,
     Version = \<lparr>Version.EnvName = env, Serial = 0, PlanOnly = plan\<rparr>,
     Params = \<lparr>Action = act, OutputModule = [], OutputStatefile = False\<rparr>\<rparr>"

definition empty_sys :: "fake_sys in_world" where
  "empty_sys = \<lparr>sys = \<lparr>backend_workspaces = [''default''], stored_versions = Map.empty\<rparr>,
                 calls = []\<rparr>"

section \<open>Basic facts about the trace\<close>

lemma invoke_events:
  "invoke ev op w = (r, w') \<Longrightarrow> events w' = events w @ [ev]"
  by (auto simp: invoke_def split: prod.splits)

lemma invoke_engine:
  "invoke ev op w = (r, w') \<Longrightarrow> (r, engine w') = op (engine w)"
  by (auto simp: invoke_def split: prod.splits)

lemma emit_events [simp]: "events (emit ev w) = events w @ [ev]"
  by (simp add: emit_def)

lemma emit_engine [simp]: "engine (emit ev w) = engine w"
  by (simp add: emit_def)

lemma new_events_append: "events w' = events w @ evs \<Longrightarrow> new_events w w' = evs"
  by (simp add: new_events_def)

lemma workspaceExists_iff:
  "foldl (\<lambda>found space. if space = n then True else found) b workspaces
     \<longleftrightarrow> b \<or> n \<in> set workspaces"
  by (induction workspaces arbitrary: b) auto

lemma setup_events:
  "Action_setup a w = (r, w') \<Longrightarrow>
     (r \<noteq> None \<and> events w' = events w @ [InitWithBackend_call]) \<or>
     events w' = events w @ [InitWithBackend_call, Import_call (Action.EnvName a)]"
  by (auto simp: Action_setup_def split: prod.splits option.splits dest!: invoke_events)

lemma createWorkspace_events:
  "createWorkspaceIfNotExists a w = (r, w') \<Longrightarrow>
     events w' = events w @ [WorkspaceList_call] \<or>
     events w' = events w @ [WorkspaceList_call, WorkspaceNew_call (Action.EnvName a)]"
  by (auto simp: createWorkspaceIfNotExists_def Let_def split: prod.splits sum.splits if_splits dest!: invoke_events)

lemma attemptDestroy_events:
  "attemptDestroy a w = (r, w') \<Longrightarrow>
     (snd r \<noteq> None \<and> events w' = events w @ [Logger_WarnSection ''Terraform Destroy'', Destroy_call, Logger_EndSection]) \<or>
     events w' = events w @ [Logger_WarnSection ''Terraform Destroy'', Destroy_call,
        WorkspaceDelete_call (Action.EnvName a), Logger_EndSection]"
  by (auto simp: attemptDestroy_def attemptDestroy_body_def split: prod.splits option.splits dest!: invoke_events)



lemmas fake_defs = native_Action_def native_Client_def fake_serial_def fake_world_def fake_Action_def fake_Client_def fresh_world_def no_failure_def failing_def
  stub_golib_def example_outputs_def next_doc_def doc_serial_1_def doc_serial_2_def doc_serial_text_def doc_no_serial_def

lemmas action_defs = Apply_def Destroy_def Action_setup_def attemptApply_def attemptApply_body_def
  attemptDestroy_def attemptDestroy_body_def createWorkspaceIfNotExists_def currentSerial_def
  invoke_def emit_def index_iface_def Result_zero_def Version_zero_def new_events_def


lemmas in_fake_defs = fake_deps_def fake_deps_part_000_def fake_InClient_def fake_Runner_def
  fake_request_def empty_sys_def stored_version_def

section \<open>Setup failures abort before any mutating call\<close>

text \<open>
  Claim C9. When the setup phase fails (\<open>InitWithBackend\<close> fails, or \<open>Import\<close> fails),
  \<open>Apply\<close> and \<open>Destroy\<close> return that error at once with the zero \<open>Result\<close>: the only
  calls made are \<open>InitWithBackend\<close> and possibly \<open>Import\<close>, the engine's \<open>Apply\<close> and
  \<open>Destroy\<close> are never invoked, and no rollback runs, whatever \<open>DeleteOnFailure\<close> is.
\<close>

theorem setup_failure_aborts:
  assumes "Action_setup a w = (Some e, w')"
  shows "Apply lib a w = ((Result_zero, Some e), w') \<and>
         Destroy a w = ((Result_zero, Some e), w') \<and>
         (new_events w w' = [InitWithBackend_call] \<or>
          new_events w w' = [InitWithBackend_call, Import_call (Action.EnvName a)]) \<and>
         Apply_call \<notin> set (new_events w w') \<and>
         Destroy_call \<notin> set (new_events w w')"
proof -
  have run: "Apply lib a w = ((Result_zero, Some e), w')" "Destroy a w = ((Result_zero, Some e), w')"
    using assms by (simp_all add: Apply_def Destroy_def)
  from setup_events [OF assms]
  have "new_events w w' = [InitWithBackend_call] \<or>
        new_events w w' = [InitWithBackend_call, Import_call (Action.EnvName a)]"
    by (auto dest: new_events_append)
  then show ?thesis using run by auto
qed

text \<open>A run in which the import fails, with \<open>DeleteOnFailure\<close> enabled.\<close>

theorem setup_failure_aborts_witness:
  "Action_setup (fake_Action (failing (Import_call ''env'') ''no such resource'') True) fresh_world
     = (Some (errorString ''no such resource''),
        fake_world [''default''] ''{}'' [InitWithBackend_call, Import_call ''env'']) \<and>
   Apply stub_golib (fake_Action (failing (Import_call ''env'') ''no such resource'') True) fresh_world
     = ((Result_zero, Some (errorString ''no such resource'')),
        fake_world [''default''] ''{}'' [InitWithBackend_call, Import_call ''env'']) \<and>
   Destroy (fake_Action (failing (Import_call ''env'') ''no such resource'') True) fresh_world
     = ((Result_zero, Some (errorString ''no such resource'')),
        fake_world [''default''] ''{}'' [InitWithBackend_call, Import_call ''env''])"
proof -
  have h: "Action_setup (fake_Action (failing (Import_call ''env'') ''no such resource'') True) fresh_world
     = (Some (errorString ''no such resource''),
        fake_world [''default''] ''{}'' [InitWithBackend_call, Import_call ''env''])"
    by (simp add: fake_defs action_defs)
  from setup_failure_aborts [OF h, of stub_golib] show ?thesis using h by simp
qed

section \<open>The destroy protocol\<close>

lemma invoke_eq:
  "invoke ev op w = (r, w') \<longleftrightarrow>
     (\<exists>s'. op (engine w) = (r, s') \<and> w' = \<lparr>engine = s', events = events w @ [ev]\<rparr>)"
  by (auto simp: invoke_def split: prod.splits)

lemma setup_eq:
  "Action_setup a w = (None, w') \<longleftrightarrow>
     (\<exists>s1 s2.
        Client_InitWithBackend (Client a) (engine w) = (None, s1) \<and>
        Client_Import (Client a) (Action.EnvName a) s1 = (None, s2) \<and>
        w' = \<lparr>engine = s2,
              events = events w @ [InitWithBackend_call, Import_call (Action.EnvName a)]\<rparr>)"
  by (auto simp: Action_setup_def invoke_def split: prod.splits option.splits)

lemma attemptDestroy_eq:
  "attemptDestroy a w = ((r, None), w') \<longleftrightarrow>
     (\<exists>s3 s4.
        Client_Destroy (Client a) (engine w) = (None, s3) \<and>
        Client_WorkspaceDelete (Client a) (Action.EnvName a) s3 = (None, s4) \<and>
        r = \<lparr>Result.Version = \<lparr>Version.EnvName = Action.EnvName a, Serial = 0, PlanOnly = False\<rparr>,
             Output = Map.empty\<rparr> \<and>
        w' = \<lparr>engine = s4,
              events = events w @ [Logger_WarnSection ''Terraform Destroy'', Destroy_call,
                 WorkspaceDelete_call (Action.EnvName a), Logger_EndSection]\<rparr>)"
  by (auto simp: attemptDestroy_def attemptDestroy_body_def invoke_def emit_def
           split: prod.splits option.splits)

text \<open>
  Claim C7. \<open>Destroy\<close> returns without error exactly when \<open>InitWithBackend\<close>, \<open>Import\<close>,
  the engine's \<open>Destroy\<close> and then \<open>WorkspaceDelete\<close> of the workspace named \<open>EnvName\<close> are
  each applied to the state the previous one left and each returns no error. The engine is
  then left in the state that \<open>WorkspaceDelete\<close> produced, the trace holds these four calls
  in this order, and the \<open>Result\<close> carries a \<open>Version\<close> with \<open>EnvName\<close> only (the serial is
  the zero value) and an empty \<open>Output\<close>.
\<close>

theorem Destroy_success:
  "Destroy a w = ((r, None), w') \<longleftrightarrow>
     (\<exists>s1 s2 s3 s4.
        Client_InitWithBackend (Client a) (engine w) = (None, s1) \<and>
        Client_Import (Client a) (Action.EnvName a) s1 = (None, s2) \<and>
        Client_Destroy (Client a) s2 = (None, s3) \<and>
        Client_WorkspaceDelete (Client a) (Action.EnvName a) s3 = (None, s4) \<and>
        r = \<lparr>Result.Version = \<lparr>Version.EnvName = Action.EnvName a, Serial = 0, PlanOnly = False\<rparr>,
             Output = Map.empty\<rparr> \<and>
        w' = \<lparr>engine = s4,
              events = events w @
                [InitWithBackend_call, Import_call (Action.EnvName a),
                 Logger_WarnSection ''Terraform Destroy'',
                 Destroy_call, WorkspaceDelete_call (Action.EnvName a),
                 Logger_EndSection,
                 Logger_Success ''Successfully Ran Terraform Destroy!'']\<rparr>)"
proof
  assume d: "Destroy a w = ((r, None), w')"
  obtain w1 where s: "Action_setup a w = (None, w1)"
    using d by (auto simp: Destroy_def split: prod.splits option.splits)
  obtain w2 where ad: "attemptDestroy a w1 = ((r, None), w2)"
    and w': "w' = emit (Logger_Success ''Successfully Ran Terraform Destroy!'') w2"
    using d s by (auto simp: Destroy_def split: prod.splits option.splits)
  from s obtain s1 s2 where 1:
      "Client_InitWithBackend (Client a) (engine w) = (None, s1)"
      "Client_Import (Client a) (Action.EnvName a) s1 = (None, s2)"
      "w1 = \<lparr>engine = s2,
              events = events w @ [InitWithBackend_call, Import_call (Action.EnvName a)]\<rparr>"
    unfolding setup_eq by blast
  from ad obtain s3 s4 where 2:
      "Client_Destroy (Client a) (engine w1) = (None, s3)"
      "Client_WorkspaceDelete (Client a) (Action.EnvName a) s3 = (None, s4)"
      "r = \<lparr>Result.Version = \<lparr>Version.EnvName = Action.EnvName a, Serial = 0, PlanOnly = False\<rparr>,
             Output = Map.empty\<rparr>"
      "w2 = \<lparr>engine = s4,
              events = events w1 @ [Logger_WarnSection ''Terraform Destroy'', Destroy_call,
                 WorkspaceDelete_call (Action.EnvName a), Logger_EndSection]\<rparr>"
    unfolding attemptDestroy_eq by blast
  show "\<exists>s1 s2 s3 s4.
        Client_InitWithBackend (Client a) (engine w) = (None, s1) \<and>
        Client_Import (Client a) (Action.EnvName a) s1 = (None, s2) \<and>
        Client_Destroy (Client a) s2 = (None, s3) \<and>
        Client_WorkspaceDelete (Client a) (Action.EnvName a) s3 = (None, s4) \<and>
        r = \<lparr>Result.Version = \<lparr>Version.EnvName = Action.EnvName a, Serial = 0, PlanOnly = False\<rparr>,
             Output = Map.empty\<rparr> \<and>
        w' = \<lparr>engine = s4,
              events = events w @
                [InitWithBackend_call, Import_call (Action.EnvName a),
                 Logger_WarnSection ''Terraform Destroy'',
                 Destroy_call, WorkspaceDelete_call (Action.EnvName a),
                 Logger_EndSection,
                 Logger_Success ''Successfully Ran Terraform Destroy!'']\<rparr>"
    using 1 2 w' by (intro exI [of _ s1] exI [of _ s2] exI [of _ s3] exI [of _ s4])
      (simp add: emit_def)
next
  assume "\<exists>s1 s2 s3 s4.
        Client_InitWithBackend (Client a) (engine w) = (None, s1) \<and>
        Client_Import (Client a) (Action.EnvName a) s1 = (None, s2) \<and>
        Client_Destroy (Client a) s2 = (None, s3) \<and>
        Client_WorkspaceDelete (Client a) (Action.EnvName a) s3 = (None, s4) \<and>
        r = \<lparr>Result.Version = \<lparr>Version.EnvName = Action.EnvName a, Serial = 0, PlanOnly = False\<rparr>,
             Output = Map.empty\<rparr> \<and>
        w' = \<lparr>engine = s4,
              events = events w @
                [InitWithBackend_call, Import_call (Action.EnvName a),
                 Logger_WarnSection ''Terraform Destroy'',
                 Destroy_call, WorkspaceDelete_call (Action.EnvName a),
                 Logger_EndSection,
                 Logger_Success ''Successfully Ran Terraform Destroy!'']\<rparr>"
  then obtain s1 s2 s3 s4 where h:
      "Client_InitWithBackend (Client a) (engine w) = (None, s1)"
      "Client_Import (Client a) (Action.EnvName a) s1 = (None, s2)"
      "Client_Destroy (Client a) s2 = (None, s3)"
      "Client_WorkspaceDelete (Client a) (Action.EnvName a) s3 = (None, s4)"
      "r = \<lparr>Result.Version = \<lparr>Version.EnvName = Action.EnvName a, Serial = 0, PlanOnly = False\<rparr>,
             Output = Map.empty\<rparr>"
      "w' = \<lparr>engine = s4,
              events = events w @
                [InitWithBackend_call, Import_call (Action.EnvName a),
                 Logger_WarnSection ''Terraform Destroy'',
                 Destroy_call, WorkspaceDelete_call (Action.EnvName a),
                 Logger_EndSection,
                 Logger_Success ''Successfully Ran Terraform Destroy!'']\<rparr>"
    by blast
  let ?w1 = "\<lparr>engine = s2,
              events = events w @ [InitWithBackend_call, Import_call (Action.EnvName a)]\<rparr>"
  let ?w2 = "\<lparr>engine = s4,
              events = events ?w1 @ [Logger_WarnSection ''Terraform Destroy'', Destroy_call,
                 WorkspaceDelete_call (Action.EnvName a), Logger_EndSection]\<rparr>"
  have s: "Action_setup a w = (None, ?w1)"
    unfolding setup_eq using h(1,2) by blast
  have ad: "attemptDestroy a ?w1 = ((r, None), ?w2)"
    unfolding attemptDestroy_eq using h(3,4,5) by simp
  show "Destroy a w = ((r, None), w')"
    using s ad h(6) by (simp add: Destroy_def emit_def)
qed


text \<open>
  A destroy of an environment that exists: the engine's \<open>Destroy\<close> rewrites the state, and
  \<open>WorkspaceDelete\<close> removes the workspace and its state. When the engine's \<open>Destroy\<close> fails,
  \<open>Destroy\<close> does not return this success.
\<close>

theorem Destroy_success_witness:
  "Client_InitWithBackend (Client (native_Action no_failure False))
       \<lparr>spaces = [''default'', ''env''], state_doc = doc_serial_1\<rparr>
     = (None, \<lparr>spaces = [''default'', ''env''], state_doc = doc_serial_1\<rparr>) \<and>
   Client_Import (Client (native_Action no_failure False)) ''env''
       \<lparr>spaces = [''default'', ''env''], state_doc = doc_serial_1\<rparr>
     = (None, \<lparr>spaces = [''default'', ''env''], state_doc = doc_serial_1\<rparr>) \<and>
   Client_Destroy (Client (native_Action no_failure False))
       \<lparr>spaces = [''default'', ''env''], state_doc = doc_serial_1\<rparr>
     = (None, \<lparr>spaces = [''default'', ''env''], state_doc = doc_serial_2\<rparr>) \<and>
   Client_WorkspaceDelete (Client (native_Action no_failure False)) ''env''
       \<lparr>spaces = [''default'', ''env''], state_doc = doc_serial_2\<rparr>
     = (None, \<lparr>spaces = [''default''], state_doc = ''{}''\<rparr>) \<and>
   Destroy (native_Action no_failure False) (fake_world [''default'', ''env''] doc_serial_1 []) =
     ((\<lparr>Result.Version = \<lparr>Version.EnvName = ''env'', Serial = 0, PlanOnly = False\<rparr>,
        Output = Map.empty\<rparr>, None),
      fake_world [''default''] ''{}''
        [InitWithBackend_call, Import_call ''env'', Logger_WarnSection ''Terraform Destroy'',
         Destroy_call, WorkspaceDelete_call ''env'', Logger_EndSection,
         Logger_Success ''Successfully Ran Terraform Destroy!'']) \<and>
   Destroy (native_Action (failing Destroy_call ''timeout'') False)
       (fake_world [''default'', ''env''] doc_serial_1 []) \<noteq>
     ((\<lparr>Result.Version = \<lparr>Version.EnvName = ''env'', Serial = 0, PlanOnly = False\<rparr>,
        Output = Map.empty\<rparr>, None),
      fake_world [''default''] ''{}''
        [InitWithBackend_call, Import_call ''env'', Logger_WarnSection ''Terraform Destroy'',
         Destroy_call, WorkspaceDelete_call ''env'', Logger_EndSection,
         Logger_Success ''Successfully Ran Terraform Destroy!''])"
proof -
  let ?A = "native_Action no_failure False"
  let ?B = "native_Action (failing Destroy_call ''timeout'') False"
  let ?s = "\<lparr>spaces = [''default'', ''env''], state_doc = doc_serial_1\<rparr>"
  let ?s3 = "\<lparr>spaces = [''default'', ''env''], state_doc = doc_serial_2\<rparr>"
  let ?s4 = "\<lparr>spaces = [''default''], state_doc = ''{}''\<rparr>"
  let ?r = "\<lparr>Result.Version = \<lparr>Version.EnvName = ''env'', Serial = 0, PlanOnly = False\<rparr>,
        Output = Map.empty\<rparr>"
  let ?evs = "[InitWithBackend_call, Import_call ''env'', Logger_WarnSection ''Terraform Destroy'',
         Destroy_call, WorkspaceDelete_call ''env'', Logger_EndSection,
         Logger_Success ''Successfully Ran Terraform Destroy!'']"
  have n: "Action.EnvName ?A = ''env''" "Action.EnvName ?B = ''env''"
    by (simp_all add: native_Action_def)
  have i: "Client_InitWithBackend (Client ?A) ?s = (None, ?s)"
   and m: "Client_Import (Client ?A) ''env'' ?s = (None, ?s)"
   and d: "Client_Destroy (Client ?A) ?s = (None, ?s3)"
   and x: "Client_WorkspaceDelete (Client ?A) ''env'' ?s3 = (None, ?s4)"
    by (simp_all add: native_Action_def native_Client_def fake_Client_def no_failure_def
          next_doc_def doc_serial_1_def doc_serial_2_def)
  have e: "engine (fake_world [''default'', ''env''] doc_serial_1 []) = ?s"
          "events (fake_world [''default'', ''env''] doc_serial_1 []) = []"
    by (simp_all add: fake_world_def)
  have ok: "Destroy ?A (fake_world [''default'', ''env''] doc_serial_1 [])
              = ((?r, None), fake_world [''default''] ''{}'' ?evs)"
    unfolding Destroy_success
    by (intro exI [of _ ?s] exI [of _ ?s3] exI [of _ ?s4])
       (simp add: i m d x e n, simp add: fake_world_def)
  have bi: "Client_InitWithBackend (Client ?B) ?s = (None, ?s)"
   and bm: "Client_Import (Client ?B) ''env'' ?s = (None, ?s)"
   and bd: "Client_Destroy (Client ?B) ?s = (Some (errorString ''timeout''), ?s)"
    by (simp_all add: native_Action_def native_Client_def fake_Client_def failing_def)
  have bad: "Destroy ?B (fake_world [''default'', ''env''] doc_serial_1 [])
              \<noteq> ((?r, None), fake_world [''default''] ''{}'' ?evs)"
    unfolding Destroy_success by (simp add: e n bi bm bd)
  show ?thesis using i m d x ok bad by simp
qed

section \<open>Rollback after a failed apply\<close>

lemma attemptApply_apply_fails:
  assumes "createWorkspaceIfNotExists a (emit (Logger_InfoSection ''Terraform Apply'') w0) = (None, w1)"
      and "invoke Apply_call (Client_Apply (Client a)) w1 = (Some e, w2)"
  shows "attemptApply lib a w0 = ((Result_zero, Some e), emit Logger_EndSection w2)"
  using assms by (simp add: attemptApply_def attemptApply_body_def)

lemma Apply_after_failed_attempt:
  assumes "Action_setup a w = (None, w0)"
      and "attemptApply lib a w0 = ((res, Some e), w2)"
  shows "Apply lib a w =
     (if DeleteOnFailure a then
        (case attemptDestroy a (emit (Logger_Warn ''Cleaning Up Partially Created Resources...'')
                 (emit (Logger_Error ''Failed To Run Terraform Apply!'') w2)) of
           ((dres, Some d), w3) \<Rightarrow>
             ((res, Some (errorString (''Apply Error: '' @ Error e @ [CHR 0x0A] @ ''Destroy Error: '' @ Error d))),
              emit (Logger_Error ''Failed To Run Terraform Destroy!'') w3)
         | ((dres, None), w3) \<Rightarrow> ((res, Some (errorString (''Apply Error: '' @ Error e))), w3))
      else ((res, Some (errorString (''Apply Error: '' @ Error e))),
            emit (Logger_Error ''Failed To Run Terraform Apply!'') w2))"
  using assms by (simp add: Apply_def split: prod.splits option.splits)

lemma attemptApply_events_upto_apply:
  assumes "createWorkspaceIfNotExists a (emit (Logger_InfoSection ''Terraform Apply'') w0) = (None, w1)"
      and "invoke Apply_call (Client_Apply (Client a)) w1 = (r, w2)"
  shows "\<exists>evs. events w2 = events w0 @ evs \<and> Destroy_call \<notin> set evs"
  using createWorkspace_events [OF assms(1)] invoke_events [OF assms(2)] by auto

lemma setup_no_destroy:
  assumes "Action_setup a w = (r, w0)"
  shows "\<exists>evs. events w0 = events w @ evs \<and> Destroy_call \<notin> set evs"
  using setup_events [OF assms] by auto

text \<open>
  Claim C1. Let the apply step (the engine's \<open>Apply\<close>) fail with error \<open>e\<close>, after a
  successful setup and workspace check. Without \<open>DeleteOnFailure\<close>, \<open>Apply\<close> returns
  \<open>Apply Error: e\<close> at once and no destroy is attempted. With \<open>DeleteOnFailure\<close>, the
  engine's \<open>Destroy\<close> is called exactly once; if the rollback succeeds the result is still
  the error \<open>Apply Error: e\<close>, and if it fails with \<open>d\<close> the result is
  \<open>Apply Error: e\<close>, a newline, \<open>Destroy Error: d\<close>. In every case the returned error
  starts with the apply error.
\<close>

theorem Apply_failure_rollback:
  assumes setup_ok: "Action_setup a w = (None, w0)"
      and ensure_ok: "createWorkspaceIfNotExists a (emit (Logger_InfoSection ''Terraform Apply'') w0) = (None, w1)"
      and apply_fails: "invoke Apply_call (Client_Apply (Client a)) w1 = (Some e, w2)"
      and rollback: "attemptDestroy a
             (emit (Logger_Warn ''Cleaning Up Partially Created Resources...'')
               (emit (Logger_Error ''Failed To Run Terraform Apply!'')
                 (emit Logger_EndSection w2))) = ((dres, derr), w3)"
  shows "(\<not> DeleteOnFailure a \<longrightarrow>
            Apply lib a w = ((Result_zero, Some (errorString (''Apply Error: '' @ Error e))),
                             emit (Logger_Error ''Failed To Run Terraform Apply!'')
                               (emit Logger_EndSection w2)) \<and>
            count_list (new_events w (snd (Apply lib a w))) Destroy_call = 0)
       \<and> (DeleteOnFailure a \<longrightarrow>
            count_list (new_events w (snd (Apply lib a w))) Destroy_call = 1 \<and>
            (derr = None \<longrightarrow>
               fst (Apply lib a w) =
                 (Result_zero, Some (errorString (''Apply Error: '' @ Error e)))) \<and>
            (\<forall>d. derr = Some d \<longrightarrow>
               fst (Apply lib a w) =
                 (Result_zero, Some (errorString (''Apply Error: '' @ Error e @ [CHR 0x0A]
                     @ ''Destroy Error: '' @ Error d)))))
       \<and> (\<exists>rest. snd (fst (Apply lib a w)) =
                     Some (errorString (''Apply Error: '' @ Error e @ rest)))"
proof -
  let ?wE = "emit (Logger_Error ''Failed To Run Terraform Apply!'') (emit Logger_EndSection w2)"
  have att: "attemptApply lib a w0 = ((Result_zero, Some e), emit Logger_EndSection w2)"
    by (rule attemptApply_apply_fails [OF ensure_ok apply_fails])
  note run = Apply_after_failed_attempt [OF setup_ok att]
  obtain evs0 where evs0: "events w0 = events w @ evs0" "Destroy_call \<notin> set evs0"
    using setup_no_destroy [OF setup_ok] by blast
  obtain evs1 where evs1: "events w2 = events w0 @ evs1" "Destroy_call \<notin> set evs1"
    using attemptApply_events_upto_apply [OF ensure_ok apply_fails] by blast
  have cnt0: "count_list (evs0 @ evs1) Destroy_call = 0"
    using evs0(2) evs1(2) by (simp add: count_list_0_iff)
  have no_rollback: ?thesis if off: "\<not> DeleteOnFailure a"
  proof -
    have A: "Apply lib a w = ((Result_zero, Some (errorString (''Apply Error: '' @ Error e))), ?wE)"
      using run off by simp
    have "new_events w ?wE = evs0 @ evs1 @ [Logger_EndSection, Logger_Error ''Failed To Run Terraform Apply!'']"
      by (rule new_events_append) (simp add: evs0 evs1)
    then have "count_list (new_events w ?wE) Destroy_call = 0"
      using cnt0 by simp
    then show ?thesis using A off by simp
  qed
  have with_rollback: ?thesis if on: "DeleteOnFailure a"
  proof -
    have A: "Apply lib a w =
        (case derr of
           Some d \<Rightarrow> ((Result_zero, Some (errorString (''Apply Error: '' @ Error e @ [CHR 0x0A]
                         @ ''Destroy Error: '' @ Error d))),
                      emit (Logger_Error ''Failed To Run Terraform Destroy!'') w3)
         | None \<Rightarrow> ((Result_zero, Some (errorString (''Apply Error: '' @ Error e))), w3))"
      using run on rollback by (simp split: option.splits)
    have ev3: "\<exists>tl. events w3 = events w @ evs0 @ evs1 @
          [Logger_EndSection, Logger_Error ''Failed To Run Terraform Apply!'',
           Logger_Warn ''Cleaning Up Partially Created Resources...'',
           Logger_WarnSection ''Terraform Destroy'', Destroy_call] @ tl \<and> Destroy_call \<notin> set tl"
      using attemptDestroy_events [OF rollback] by (auto simp: evs0 evs1)
    then obtain tl where tl: "events w3 = events w @ evs0 @ evs1 @
          [Logger_EndSection, Logger_Error ''Failed To Run Terraform Apply!'',
           Logger_Warn ''Cleaning Up Partially Created Resources...'',
           Logger_WarnSection ''Terraform Destroy'', Destroy_call] @ tl" "Destroy_call \<notin> set tl"
      by blast
    have c3: "count_list (new_events w w3) Destroy_call = 1"
      using tl cnt0 by (simp add: new_events_def count_list_0_iff)
    have c3': "count_list (new_events w (emit (Logger_Error ''Failed To Run Terraform Destroy!'') w3)) Destroy_call = 1"
      using tl cnt0 by (simp add: new_events_def count_list_0_iff)
    show ?thesis using A on c3 c3' by (cases derr) simp_all
  qed
  show ?thesis using no_rollback with_rollback by blast
qed


theorem Apply_failure_rollback_witness:
  "Apply stub_golib (fake_Action (failing Apply_call ''quota exceeded'') False) fresh_world =
     ((Result_zero, Some (errorString ''Apply Error: quota exceeded'')),
      fake_world [''default'', ''env''] ''{}''
        [InitWithBackend_call, Import_call ''env'', Logger_InfoSection ''Terraform Apply'',
         WorkspaceList_call, WorkspaceNew_call ''env'', Apply_call, Logger_EndSection,
         Logger_Error ''Failed To Run Terraform Apply!'']) \<and>
   fst (Apply stub_golib (fake_Action (failing Apply_call ''quota exceeded'') True) fresh_world) =
     (Result_zero, Some (errorString ''Apply Error: quota exceeded'')) \<and>
   count_list (new_events fresh_world
       (snd (Apply stub_golib (fake_Action (failing Apply_call ''quota exceeded'') True) fresh_world)))
     Destroy_call = 1 \<and>
   fst (Apply stub_golib
         (fake_Action (\<lambda>ev. if ev = Apply_call then Some (errorString ''quota exceeded'')
                             else if ev = Destroy_call then Some (errorString ''timeout'')
                             else None) True) fresh_world) =
     (Result_zero, Some (errorString (''Apply Error: quota exceeded'' @ [CHR 0x0A]
          @ ''Destroy Error: timeout'')))"
proof -
  let ?both = "\<lambda>ev. if ev = Apply_call then Some (errorString ''quota exceeded'')
                      else if ev = Destroy_call then Some (errorString ''timeout'') else None"
  let ?w0 = "fake_world [''default''] ''{}'' [InitWithBackend_call, Import_call ''env'']"
  let ?w1 = "fake_world [''default'', ''env''] ''{}''
      [InitWithBackend_call, Import_call ''env'', Logger_InfoSection ''Terraform Apply'',
       WorkspaceList_call, WorkspaceNew_call ''env'']"
  let ?w2 = "fake_world [''default'', ''env''] ''{}''
      [InitWithBackend_call, Import_call ''env'', Logger_InfoSection ''Terraform Apply'',
       WorkspaceList_call, WorkspaceNew_call ''env'', Apply_call]"
  let ?wd = "emit (Logger_Warn ''Cleaning Up Partially Created Resources...'')
               (emit (Logger_Error ''Failed To Run Terraform Apply!'')
                 (emit Logger_EndSection ?w2))"
  have first: "Apply stub_golib (fake_Action (failing Apply_call ''quota exceeded'') False) fresh_world =
     ((Result_zero, Some (errorString ''Apply Error: quota exceeded'')),
      fake_world [''default'', ''env''] ''{}''
        [InitWithBackend_call, Import_call ''env'', Logger_InfoSection ''Terraform Apply'',
         WorkspaceList_call, WorkspaceNew_call ''env'', Apply_call, Logger_EndSection,
         Logger_Error ''Failed To Run Terraform Apply!''])"
  proof -
    let ?A = "fake_Action (failing Apply_call ''quota exceeded'') False"
    have s: "Action_setup ?A fresh_world = (None, ?w0)"
      by (simp add: fake_defs action_defs)
    have c: "createWorkspaceIfNotExists ?A (emit (Logger_InfoSection ''Terraform Apply'') ?w0) = (None, ?w1)"
      by (simp add: fake_defs action_defs)
    have a: "invoke Apply_call (Client_Apply (Client ?A)) ?w1 = (Some (errorString ''quota exceeded''), ?w2)"
      by (simp add: fake_defs action_defs)
    have d: "attemptDestroy ?A ?wd = ((fst (fst (attemptDestroy ?A ?wd)), snd (fst (attemptDestroy ?A ?wd))),
                                       snd (attemptDestroy ?A ?wd))"
      by simp
    have off: "\<not> DeleteOnFailure ?A" by (simp add: fake_Action_def)
    from Apply_failure_rollback [OF s c a d, of stub_golib] off
    show ?thesis by (simp add: fake_world_def emit_def)
  qed
  have second: "fst (Apply stub_golib (fake_Action (failing Apply_call ''quota exceeded'') True) fresh_world) =
       (Result_zero, Some (errorString ''Apply Error: quota exceeded'')) \<and>
     count_list (new_events fresh_world
       (snd (Apply stub_golib (fake_Action (failing Apply_call ''quota exceeded'') True) fresh_world)))
       Destroy_call = 1"
  proof -
    let ?A = "fake_Action (failing Apply_call ''quota exceeded'') True"
    have s: "Action_setup ?A fresh_world = (None, ?w0)"
      by (simp add: fake_defs action_defs)
    have c: "createWorkspaceIfNotExists ?A (emit (Logger_InfoSection ''Terraform Apply'') ?w0) = (None, ?w1)"
      by (simp add: fake_defs action_defs)
    have a: "invoke Apply_call (Client_Apply (Client ?A)) ?w1 = (Some (errorString ''quota exceeded''), ?w2)"
      by (simp add: fake_defs action_defs)
    have d: "attemptDestroy ?A ?wd = ((fst (fst (attemptDestroy ?A ?wd)), None), snd (attemptDestroy ?A ?wd))"
      by (simp add: fake_defs action_defs)
    have on: "DeleteOnFailure ?A" by (simp add: fake_Action_def)
    from Apply_failure_rollback [OF s c a d, of stub_golib] on
    show ?thesis by simp
  qed
  have third: "fst (Apply stub_golib (fake_Action ?both True) fresh_world) =
     (Result_zero, Some (errorString (''Apply Error: quota exceeded'' @ [CHR 0x0A]
          @ ''Destroy Error: timeout'')))"
  proof -
    let ?A = "fake_Action ?both True"
    have s: "Action_setup ?A fresh_world = (None, ?w0)"
      by (simp add: fake_defs action_defs)
    have c: "createWorkspaceIfNotExists ?A (emit (Logger_InfoSection ''Terraform Apply'') ?w0) = (None, ?w1)"
      by (simp add: fake_defs action_defs)
    have a: "invoke Apply_call (Client_Apply (Client ?A)) ?w1 = (Some (errorString ''quota exceeded''), ?w2)"
      by (simp add: fake_defs action_defs)
    have d: "attemptDestroy ?A ?wd = ((fst (fst (attemptDestroy ?A ?wd)), Some (errorString ''timeout'')),
               snd (attemptDestroy ?A ?wd))"
      by (simp add: fake_defs action_defs)
    have on: "DeleteOnFailure ?A" by (simp add: fake_Action_def)
    from Apply_failure_rollback [OF s c a d, of stub_golib] on
    show ?thesis by simp
  qed
  from first second third show ?thesis by simp
qed

section \<open>The sanitized view of the outputs\<close>

lemma strings_Trim_decomp:
  "\<exists>pre post. s = pre @ strings_Trim s cs @ post \<and> set pre \<subseteq> set cs \<and> set post \<subseteq> set cs"
proof -
  let ?P = "\<lambda>c. c \<in> set cs"
  let ?m = "dropWhile ?P s"
  have 1: "s = takeWhile ?P s @ ?m" by simp
  have 2: "rev ?m = takeWhile ?P (rev ?m) @ dropWhile ?P (rev ?m)" by simp
  have "?m = rev (rev ?m)" by simp
  also have "\<dots> = rev (dropWhile ?P (rev ?m)) @ rev (takeWhile ?P (rev ?m))"
    by (subst 2) (simp only: rev_append)
  finally have 3: "?m = strings_Trim s cs @ rev (takeWhile ?P (rev ?m))"
    by (simp add: strings_Trim_def)
  have "s = takeWhile ?P s @ strings_Trim s cs @ rev (takeWhile ?P (rev ?m))"
    using 1 3 by metis
  moreover have "set (takeWhile ?P s) \<subseteq> set cs"
    by (auto dest: set_takeWhileD)
  moreover have "set (rev (takeWhile ?P (rev ?m))) \<subseteq> set cs"
    by (auto dest: set_takeWhileD)
  ultimately show ?thesis by blast
qed

lemma strings_Trim_ends:
  assumes "strings_Trim s cs \<noteq> []"
  shows "hd (strings_Trim s cs) \<notin> set cs \<and> last (strings_Trim s cs) \<notin> set cs"
proof -
  let ?P = "\<lambda>c. c \<in> set cs"
  let ?m = "dropWhile ?P s"
  let ?k = "dropWhile ?P (rev ?m)"
  have k: "?k \<noteq> []" using assms by (simp add: strings_Trim_def)
  then have hk: "\<not> ?P (hd ?k)" by (rule hd_dropWhile)
  have last_t: "last (strings_Trim s cs) = hd ?k"
    using k by (simp add: strings_Trim_def last_rev)
  have m: "?m \<noteq> []"
  proof
    assume e: "?m = []"
    have "?k = []" unfolding e by simp
    with k show False by simp
  qed
  then have hm: "\<not> ?P (hd ?m)" by (rule hd_dropWhile)
  have "\<exists>ys. rev ?m = ys @ ?k" by (metis takeWhile_dropWhile_id)
  then obtain ys where "rev ?m = ys @ ?k" by blast
  then have "?m = rev ?k @ rev ys" by (metis rev_append rev_rev_ident)
  then have "hd ?m = hd (rev ?k)" using k by (metis hd_append2 rev_is_Nil_conv)
  then have "hd (strings_Trim s cs) = hd ?m" by (simp add: strings_Trim_def)
  then show ?thesis using hm hk last_t by simp
qed

lemma strings_Trim_keep_prefix:
  assumes "p \<noteq> []" "hd p \<notin> set cs" "last p \<notin> set cs"
  shows "strings_Trim (p @ t) cs = p @ rev (dropWhile (\<lambda>c. c \<in> set cs) (rev t))"
proof -
  let ?P = "\<lambda>c. c \<in> set cs"
  have 1: "dropWhile ?P (p @ t) = p @ t"
    using assms(1,2) by (cases p) auto
  have 2: "dropWhile ?P (rev p) = rev p"
    using assms(1,3) by (cases "rev p") (auto simp: last_rev [symmetric] hd_rev)
  have "dropWhile ?P (rev t @ rev p) = dropWhile ?P (rev t) @ rev p"
  proof (cases "\<forall>x\<in>set (rev t). ?P x")
    case True
    then have "dropWhile ?P (rev t) = []" by simp
    then show ?thesis using True 2 by (simp add: dropWhile_append)
  next
    case False
    then show ?thesis by (auto simp: dropWhile_append)
  qed
  then show ?thesis by (simp add: strings_Trim_def 1)
qed

text \<open>
  Claim C2. \<open>SanitizedOutput\<close> has an entry for exactly the keys of \<open>Output\<close>. A key
  whose record has \<open>sensitive == true\<close> maps to the marker \<open><sensitive>\<close>, whatever its
  value is. Any other key maps to the JSON text of its value with the surrounding double
  quotes stripped: what is removed before and after consists of quote characters only, and
  what is left neither starts nor ends with one. When \<open>json.Marshal\<close> fails, the key maps
  to the diagnostic \<open>Unable to parse output value for key '<key>': <error>\<close> (the same
  trimming removes quote characters that end the error text), and the function still
  returns the map.
\<close>

theorem SanitizedOutput_entries:
  "dom (SanitizedOutput lib r) = dom (Output r) \<and>
   (\<forall>key val. Output r key = Some val \<longrightarrow>
      (index_iface val ''sensitive'' = VBool True \<longrightarrow>
         SanitizedOutput lib r key = Some ''<sensitive>'') \<and>
      (index_iface val ''sensitive'' \<noteq> VBool True \<longrightarrow>
         (\<forall>bytes. json_Marshal lib (index_iface val ''value'') = Inr bytes \<longrightarrow>
            SanitizedOutput lib r key = Some (strings_Trim bytes [CHR 0x22]) \<and>
            (\<exists>pre post. bytes = pre @ strings_Trim bytes [CHR 0x22] @ post \<and>
               set pre \<subseteq> {CHR 0x22} \<and> set post \<subseteq> {CHR 0x22}) \<and>
            (strings_Trim bytes [CHR 0x22] = [] \<or>
               hd (strings_Trim bytes [CHR 0x22]) \<noteq> CHR 0x22 \<and>
               last (strings_Trim bytes [CHR 0x22]) \<noteq> CHR 0x22)) \<and>
         (\<forall>err. json_Marshal lib (index_iface val ''value'') = Inl err \<longrightarrow>
            SanitizedOutput lib r key =
              Some (''Unable to parse output value for key '' @ [CHR 0x27] @ key @ [CHR 0x27]
                    @ '': '' @ rev (dropWhile (\<lambda>c. c = CHR 0x22) (rev (Error err)))))))"
proof -
  have d: "dom (SanitizedOutput lib r) = dom (Output r)"
    by (auto simp: SanitizedOutput_def split: option.splits)
  have s: "SanitizedOutput lib r key = Some ''<sensitive>''"
    if "Output r key = Some val" "index_iface val ''sensitive'' = VBool True" for key val
    using that by (simp add: SanitizedOutput_def sanitize_entry_def)
  have ok: "SanitizedOutput lib r key = Some (strings_Trim bytes [CHR 0x22])"
    if "Output r key = Some val" "index_iface val ''sensitive'' \<noteq> VBool True"
       "json_Marshal lib (index_iface val ''value'') = Inr bytes" for key val bytes
    using that by (simp add: SanitizedOutput_def sanitize_entry_def)
  have dec: "\<exists>pre post. bytes = pre @ strings_Trim bytes [CHR 0x22] @ post \<and>
               set pre \<subseteq> {CHR 0x22} \<and> set post \<subseteq> {CHR 0x22}" for bytes
    using strings_Trim_decomp [of bytes "[CHR 0x22]"] by simp
  have ends: "strings_Trim bytes [CHR 0x22] = [] \<or>
               hd (strings_Trim bytes [CHR 0x22]) \<noteq> CHR 0x22 \<and>
               last (strings_Trim bytes [CHR 0x22]) \<noteq> CHR 0x22" for bytes
    using strings_Trim_ends [of bytes "[CHR 0x22]"] by auto
  have bad: "SanitizedOutput lib r key =
              Some (''Unable to parse output value for key '' @ [CHR 0x27] @ key @ [CHR 0x27]
                    @ '': '' @ rev (dropWhile (\<lambda>c. c = CHR 0x22) (rev (Error err))))"
    if "Output r key = Some val" "index_iface val ''sensitive'' \<noteq> VBool True"
       "json_Marshal lib (index_iface val ''value'') = Inl err" for key val err
  proof -
    let ?p = "''Unable to parse output value for key '' @ [CHR 0x27] @ key @ [CHR 0x27] @ '': ''"
    have "strings_Trim (?p @ Error err) [CHR 0x22]
            = ?p @ rev (dropWhile (\<lambda>c. c \<in> set [CHR 0x22]) (rev (Error err)))"
      by (rule strings_Trim_keep_prefix) simp_all
    then show ?thesis
      using that by (simp add: SanitizedOutput_def sanitize_entry_def)
  qed
  show ?thesis
    using d s ok dec ends bad by blast
qed

text \<open>The example of the specification, with a third output that cannot be serialized.\<close>

theorem SanitizedOutput_entries_witness:
  "Output example_Result ''pw'' = Some [''value'' \<mapsto> VString ''secret123'', ''sensitive'' \<mapsto> VBool True] \<and>
   SanitizedOutput stub_golib example_Result ''pw'' = Some ''<sensitive>'' \<and>
   Output example_Result ''url'' = Some [''value'' \<mapsto> VString ''http://x'', ''sensitive'' \<mapsto> VBool False] \<and>
   SanitizedOutput stub_golib example_Result ''url'' = Some ''http://x'' \<and>
   Output example_Result ''conn'' = Some [''value'' \<mapsto> VOther ''chan int''] \<and>
   SanitizedOutput stub_golib example_Result ''conn'' =
     Some (''Unable to parse output value for key '' @ [CHR 0x27] @ ''conn'' @ [CHR 0x27]
           @ '': json: unsupported type: chan int'') \<and>
   dom (SanitizedOutput stub_golib example_Result) = {''pw'', ''url'', ''conn''}"
proof -
  let ?pw = "[''value'' \<mapsto> VString ''secret123'', ''sensitive'' \<mapsto> VBool True]"
  let ?url = "[''value'' \<mapsto> VString ''http://x'', ''sensitive'' \<mapsto> VBool False]"
  let ?conn = "[''value'' \<mapsto> VOther ''chan int'']"
  note T = SanitizedOutput_entries [of stub_golib example_Result]
  have o1: "Output example_Result ''pw'' = Some ?pw"
   and o2: "Output example_Result ''url'' = Some ?url"
   and o3: "Output example_Result ''conn'' = Some ?conn"
    by (simp_all add: example_Result_def example_outputs_def)
  have s1: "index_iface ?pw ''sensitive'' = VBool True"
   and s2: "index_iface ?url ''sensitive'' \<noteq> VBool True"
   and s3: "index_iface ?conn ''sensitive'' \<noteq> VBool True"
    by (simp_all add: index_iface_def)
  have m2: "json_Marshal stub_golib (index_iface ?url ''value'') = Inr ([CHR 0x22] @ ''http://x'' @ [CHR 0x22])"
   and m3: "json_Marshal stub_golib (index_iface ?conn ''value'')
              = Inl (errorString ''json: unsupported type: chan int'')"
    by (simp_all add: index_iface_def stub_golib_def)
  have d: "dom (SanitizedOutput stub_golib example_Result) = {''pw'', ''url'', ''conn''}"
    using T [THEN conjunct1] by (auto simp: example_Result_def example_outputs_def)
  have r1: "SanitizedOutput stub_golib example_Result ''pw'' = Some ''<sensitive>''"
    using T [THEN conjunct2, THEN spec, THEN spec, THEN mp, OF o1, THEN conjunct1] s1 by simp
  note N2 = T [THEN conjunct2, THEN spec, THEN spec, THEN mp, OF o2, THEN conjunct2, THEN mp, OF s2]
  have r2: "SanitizedOutput stub_golib example_Result ''url'' = Some ''http://x''"
    using N2 [THEN conjunct1, THEN spec, THEN mp, OF m2] by (simp add: strings_Trim_def)
  note N3 = T [THEN conjunct2, THEN spec, THEN spec, THEN mp, OF o3, THEN conjunct2, THEN mp, OF s3]
  have r3: "SanitizedOutput stub_golib example_Result ''conn'' =
     Some (''Unable to parse output value for key '' @ [CHR 0x27] @ ''conn'' @ [CHR 0x27]
           @ '': json: unsupported type: chan int'')"
    using N3 [THEN conjunct2, THEN spec, THEN mp, OF m3] by simp
  show ?thesis using o1 o2 o3 r1 r2 r3 d by simp
qed

section \<open>The finalize step of a successful apply\<close>





section \<open>A failure after the apply step\<close>

lemma currentSerial_events:
  "currentSerial lib a w = (r, w') \<Longrightarrow> events w' = events w @ [StatePull_call (Action.EnvName a)]"
  by (auto simp: currentSerial_def split: prod.splits sum.splits iface.splits dest!: invoke_events)

lemma attemptApply_body_no_destroy:
  assumes "attemptApply_body lib a w = (r, w')"
  shows "\<exists>evs. events w' = events w @ evs \<and> Destroy_call \<notin> set evs"
proof -
  obtain r1 w1 where c: "createWorkspaceIfNotExists a w = (r1, w1)" by (cases "createWorkspaceIfNotExists a w")
  from createWorkspace_events [OF c]
  obtain e1 where e1: "events w1 = events w @ e1" "Destroy_call \<notin> set e1" by auto
  show ?thesis
  proof (cases r1)
    case (Some err)
    then have "w' = w1" using assms c by (simp add: attemptApply_body_def)
    then show ?thesis using e1 by blast
  next
    case None
    obtain r2 w2 where a: "invoke Apply_call (Client_Apply (Client a)) w1 = (r2, w2)"
      by (cases "invoke Apply_call (Client_Apply (Client a)) w1")
    have e2: "events w2 = events w @ (e1 @ [Apply_call])"
      using invoke_events [OF a] e1 by simp
    show ?thesis
    proof (cases r2)
      case (Some err)
      then have "w' = w2" using assms c a None by (simp add: attemptApply_body_def)
      then show ?thesis using e1 e2 by (intro exI [of _ "e1 @ [Apply_call]"]) simp
    next
      case n2: None
      obtain k r3 w3 where s: "currentSerial lib a w2 = ((k, r3), w3)"
        by (cases "currentSerial lib a w2") auto
      have e3: "events w3 = events w @ (e1 @ [Apply_call, StatePull_call (Action.EnvName a)])"
        using currentSerial_events [OF s] e2 by simp
      show ?thesis
      proof (cases r3)
        case (Some err)
        then have "w' = w3" using assms c a None n2 s by (simp add: attemptApply_body_def)
        then show ?thesis using e1 e3
          by (intro exI [of _ "e1 @ [Apply_call, StatePull_call (Action.EnvName a)]"]) simp
      next
        case n3: None
        obtain r4 w4 where ou: "invoke (Output_call (Action.EnvName a))
                 (Client_Output (Client a) (Action.EnvName a)) w3 = (r4, w4)"
          by (cases "invoke (Output_call (Action.EnvName a))
                 (Client_Output (Client a) (Action.EnvName a)) w3")
        have e4: "events w4 = events w @ (e1 @ [Apply_call, StatePull_call (Action.EnvName a),
                    Output_call (Action.EnvName a)])"
          using invoke_events [OF ou] e3 by simp
        have "w' = w4" using assms c a None n2 s n3 ou
          by (cases r4) (simp_all add: attemptApply_body_def)
        then show ?thesis using e1 e4
          by (intro exI [of _ "e1 @ [Apply_call, StatePull_call (Action.EnvName a),
                    Output_call (Action.EnvName a)]"]) simp
      qed
    qed
  qed
qed

lemma attemptApply_no_destroy:
  assumes "attemptApply lib a w = (r, w')"
  shows "\<exists>evs. events w' = events w @ evs \<and> Destroy_call \<notin> set evs"
proof -
  obtain w1 where b: "attemptApply_body lib a (emit (Logger_InfoSection ''Terraform Apply'') w) = (r, w1)"
    and w': "w' = emit Logger_EndSection w1"
    using assms by (auto simp: attemptApply_def split: prod.splits)
  from attemptApply_body_no_destroy [OF b]
  obtain evs where "events w1 = events w @ [Logger_InfoSection ''Terraform Apply''] @ evs"
     "Destroy_call \<notin> set evs" by auto
  then show ?thesis using w'
    by (intro exI [of _ "[Logger_InfoSection ''Terraform Apply''] @ evs @ [Logger_EndSection]"]) simp
qed

lemma Apply_failed_attempt_summary:
  assumes setup_ok: "Action_setup a w = (None, w0)"
      and att: "attemptApply lib a w0 = ((res, Some e), w2)"
  shows "fst (fst (Apply lib a w)) = res \<and>
         (\<exists>rest. snd (fst (Apply lib a w)) = Some (errorString (''Apply Error: '' @ Error e @ rest))) \<and>
         count_list (new_events w (snd (Apply lib a w))) Destroy_call
           = (if DeleteOnFailure a then 1 else 0)"
proof -
  let ?wE = "emit (Logger_Error ''Failed To Run Terraform Apply!'') w2"
  let ?wd = "emit (Logger_Warn ''Cleaning Up Partially Created Resources...'') ?wE"
  note run = Apply_after_failed_attempt [OF setup_ok att]
  obtain evs0 where evs0: "events w0 = events w @ evs0" "Destroy_call \<notin> set evs0"
    using setup_no_destroy [OF setup_ok] by blast
  obtain evs1 where evs1: "events w2 = events w0 @ evs1" "Destroy_call \<notin> set evs1"
    using attemptApply_no_destroy [OF att] by blast
  have cnt0: "count_list (evs0 @ evs1) Destroy_call = 0"
    using evs0(2) evs1(2) by (simp add: count_list_0_iff)
  show ?thesis
  proof (cases "DeleteOnFailure a")
    case False
    have A: "Apply lib a w = ((res, Some (errorString (''Apply Error: '' @ Error e))), ?wE)"
      using run False by simp
    have "new_events w ?wE = evs0 @ evs1 @ [Logger_Error ''Failed To Run Terraform Apply!'']"
      by (rule new_events_append) (simp add: evs0 evs1)
    then have "count_list (new_events w ?wE) Destroy_call = 0"
      using cnt0 by simp
    then show ?thesis using A False by simp
  next
    case True
    obtain dres derr w3 where rollback: "attemptDestroy a ?wd = ((dres, derr), w3)"
      by (cases "attemptDestroy a ?wd") auto
    have A: "Apply lib a w =
        (case derr of
           Some d \<Rightarrow> ((res, Some (errorString (''Apply Error: '' @ Error e @ [CHR 0x0A]
                         @ ''Destroy Error: '' @ Error d))),
                      emit (Logger_Error ''Failed To Run Terraform Destroy!'') w3)
         | None \<Rightarrow> ((res, Some (errorString (''Apply Error: '' @ Error e))), w3))"
      using run True rollback by (simp split: option.splits)
    have "\<exists>tl. events w3 = events w @ evs0 @ evs1 @
          [Logger_Error ''Failed To Run Terraform Apply!'',
           Logger_Warn ''Cleaning Up Partially Created Resources...'',
           Logger_WarnSection ''Terraform Destroy'', Destroy_call] @ tl \<and> Destroy_call \<notin> set tl"
      using attemptDestroy_events [OF rollback] by (auto simp: evs0 evs1)
    then obtain tl where tl: "events w3 = events w @ evs0 @ evs1 @
          [Logger_Error ''Failed To Run Terraform Apply!'',
           Logger_Warn ''Cleaning Up Partially Created Resources...'',
           Logger_WarnSection ''Terraform Destroy'', Destroy_call] @ tl" "Destroy_call \<notin> set tl"
      by blast
    have c3: "count_list (new_events w w3) Destroy_call = 1"
      using tl cnt0 by (simp add: new_events_def count_list_0_iff)
    have c3': "count_list (new_events w (emit (Logger_Error ''Failed To Run Terraform Destroy!'') w3)) Destroy_call = 1"
      using tl cnt0 by (simp add: new_events_def count_list_0_iff)
    show ?thesis using A True c3 c3' by (cases derr) simp_all
  qed
qed

text \<open>
  Claim C3, as amended. When the apply step succeeds and the following \<open>StatePull\<close> or
  \<open>Output\<close> fails with error \<open>e\<close>, \<open>attemptApply\<close> returns the zero \<open>Result\<close> and \<open>e\<close>
  itself, exactly as for a failed apply step; \<open>Apply\<close> therefore returns an error that
  starts with \<open>Apply Error: e\<close>, and the rollback destroy runs exactly when
  \<open>DeleteOnFailure\<close> is set (once), and not otherwise.
\<close>

theorem post_apply_read_failure:
  assumes setup_ok: "Action_setup a w = (None, w0)"
      and ensure_ok: "createWorkspaceIfNotExists a (emit (Logger_InfoSection ''Terraform Apply'') w0) = (None, w1)"
      and apply_ok: "invoke Apply_call (Client_Apply (Client a)) w1 = (None, w2)"
      and read_fails:
        "invoke (StatePull_call (Action.EnvName a))
             (Client_StatePull (Client a) (Action.EnvName a)) w2 = (Inl e, w3)
         \<or> (\<exists>serial w3'. currentSerial lib a w2 = ((serial, None), w3') \<and>
               invoke (Output_call (Action.EnvName a))
                 (Client_Output (Client a) (Action.EnvName a)) w3' = (Inl e, w3))"
  shows "attemptApply lib a w0 = ((Result_zero, Some e), emit Logger_EndSection w3) \<and>
         fst (fst (Apply lib a w)) = Result_zero \<and>
         (\<exists>rest. snd (fst (Apply lib a w)) = Some (errorString (''Apply Error: '' @ Error e @ rest))) \<and>
         count_list (new_events w (snd (Apply lib a w))) Destroy_call
           = (if DeleteOnFailure a then 1 else 0)"
proof -
  have att: "attemptApply lib a w0 = ((Result_zero, Some e), emit Logger_EndSection w3)"
    using read_fails
  proof
    assume "invoke (StatePull_call (Action.EnvName a))
             (Client_StatePull (Client a) (Action.EnvName a)) w2 = (Inl e, w3)"
    then have "currentSerial lib a w2 = ((- 1, Some e), w3)"
      by (simp add: currentSerial_def)
    then show ?thesis using ensure_ok apply_ok
      by (simp add: attemptApply_def attemptApply_body_def)
  next
    assume "\<exists>serial w3'. currentSerial lib a w2 = ((serial, None), w3') \<and>
               invoke (Output_call (Action.EnvName a))
                 (Client_Output (Client a) (Action.EnvName a)) w3' = (Inl e, w3)"
    then show ?thesis using ensure_ok apply_ok
      by (auto simp: attemptApply_def attemptApply_body_def)
  qed
  from Apply_failed_attempt_summary [OF setup_ok att] att show ?thesis by simp
qed

text \<open>
  Two runs on the scripted engine: \<open>StatePull\<close> fails with \<open>DeleteOnFailure\<close> set, and
  \<open>Output\<close> fails without it.
\<close>

theorem post_apply_read_failure_witness:
  "attemptApply stub_golib (fake_Action (failing (StatePull_call ''env'') ''connection reset'') True)
       (fake_world [''default''] ''{}'' [InitWithBackend_call, Import_call ''env'']) =
     ((Result_zero, Some (errorString ''connection reset'')),
      fake_world [''default'', ''env''] doc_serial_1
        [InitWithBackend_call, Import_call ''env'', Logger_InfoSection ''Terraform Apply'',
         WorkspaceList_call, WorkspaceNew_call ''env'', Apply_call, StatePull_call ''env'',
         Logger_EndSection]) \<and>
   count_list (new_events fresh_world
      (snd (Apply stub_golib (fake_Action (failing (StatePull_call ''env'') ''connection reset'') True)
              fresh_world))) Destroy_call = 1 \<and>
   attemptApply stub_golib (fake_Action (failing (Output_call ''env'') ''no outputs'') False)
       (fake_world [''default''] ''{}'' [InitWithBackend_call, Import_call ''env'']) =
     ((Result_zero, Some (errorString ''no outputs'')),
      fake_world [''default'', ''env''] doc_serial_1
        [InitWithBackend_call, Import_call ''env'', Logger_InfoSection ''Terraform Apply'',
         WorkspaceList_call, WorkspaceNew_call ''env'', Apply_call, StatePull_call ''env'',
         Output_call ''env'', Logger_EndSection]) \<and>
   count_list (new_events fresh_world
      (snd (Apply stub_golib (fake_Action (failing (Output_call ''env'') ''no outputs'') False)
              fresh_world))) Destroy_call = 0"
proof -
  let ?w0 = "fake_world [''default''] ''{}'' [InitWithBackend_call, Import_call ''env'']"
  let ?w1 = "fake_world [''default'', ''env''] ''{}''
      [InitWithBackend_call, Import_call ''env'', Logger_InfoSection ''Terraform Apply'',
       WorkspaceList_call, WorkspaceNew_call ''env'']"
  let ?w2 = "fake_world [''default'', ''env''] doc_serial_1
      [InitWithBackend_call, Import_call ''env'', Logger_InfoSection ''Terraform Apply'',
       WorkspaceList_call, WorkspaceNew_call ''env'', Apply_call]"
  let ?w3 = "fake_world [''default'', ''env''] doc_serial_1
      [InitWithBackend_call, Import_call ''env'', Logger_InfoSection ''Terraform Apply'',
       WorkspaceList_call, WorkspaceNew_call ''env'', Apply_call, StatePull_call ''env'']"
  let ?w4 = "fake_world [''default'', ''env''] doc_serial_1
      [InitWithBackend_call, Import_call ''env'', Logger_InfoSection ''Terraform Apply'',
       WorkspaceList_call, WorkspaceNew_call ''env'', Apply_call, StatePull_call ''env'',
       Output_call ''env'']"
  have pull_case: "attemptApply stub_golib (fake_Action (failing (StatePull_call ''env'') ''connection reset'') True) ?w0 =
       ((Result_zero, Some (errorString ''connection reset'')), emit Logger_EndSection ?w3) \<and>
     count_list (new_events fresh_world
       (snd (Apply stub_golib (fake_Action (failing (StatePull_call ''env'') ''connection reset'') True)
              fresh_world))) Destroy_call = 1"
  proof -
    let ?A = "fake_Action (failing (StatePull_call ''env'') ''connection reset'') True"
    have s: "Action_setup ?A fresh_world = (None, ?w0)"
      by (simp add: fake_defs action_defs)
    have c: "createWorkspaceIfNotExists ?A (emit (Logger_InfoSection ''Terraform Apply'') ?w0) = (None, ?w1)"
      by (simp add: fake_defs action_defs)
    have a: "invoke Apply_call (Client_Apply (Client ?A)) ?w1 = (None, ?w2)"
      by (simp add: fake_defs action_defs)
    have p: "invoke (StatePull_call (Action.EnvName ?A))
               (Client_StatePull (Client ?A) (Action.EnvName ?A)) ?w2
             = (Inl (errorString ''connection reset''), ?w3)"
      by (simp add: fake_defs action_defs)
    have on: "DeleteOnFailure ?A" by (simp add: fake_Action_def)
    from post_apply_read_failure [OF s c a disjI1, OF p, of stub_golib] on
    show ?thesis by simp
  qed
  have output_case: "attemptApply stub_golib (fake_Action (failing (Output_call ''env'') ''no outputs'') False) ?w0 =
       ((Result_zero, Some (errorString ''no outputs'')), emit Logger_EndSection ?w4) \<and>
     count_list (new_events fresh_world
       (snd (Apply stub_golib (fake_Action (failing (Output_call ''env'') ''no outputs'') False)
              fresh_world))) Destroy_call = 0"
  proof -
    let ?A = "fake_Action (failing (Output_call ''env'') ''no outputs'') False"
    have s: "Action_setup ?A fresh_world = (None, ?w0)"
      by (simp add: fake_defs action_defs)
    have c: "createWorkspaceIfNotExists ?A (emit (Logger_InfoSection ''Terraform Apply'') ?w0) = (None, ?w1)"
      by (simp add: fake_defs action_defs)
    have a: "invoke Apply_call (Client_Apply (Client ?A)) ?w1 = (None, ?w2)"
      by (simp add: fake_defs action_defs)
    have p: "\<exists>serial w3'. currentSerial stub_golib ?A ?w2 = ((serial, None), w3') \<and>
               invoke (Output_call (Action.EnvName ?A))
                 (Client_Output (Client ?A) (Action.EnvName ?A)) w3' = (Inl (errorString ''no outputs''), ?w4)"
      by (intro exI [of _ 1] exI [of _ ?w3]) (simp add: fake_defs action_defs)
    have off: "\<not> DeleteOnFailure ?A" by (simp add: fake_Action_def)
    from post_apply_read_failure [OF s c a disjI2, OF p] off
    show ?thesis by simp
  qed
  from pull_case output_case show ?thesis by (simp add: emit_def fake_world_def)
qed

text \<open>
  Claim C3 as stated does not hold. A run in which the engine's \<open>Apply\<close> succeeds and
  \<open>StatePull\<close> fails returns the very pair that a run with a failing apply step returns
  (zero \<open>Result\<close>, \<open>Apply Error: connection reset\<close>), and with \<open>DeleteOnFailure\<close> its trace
  contains the rollback: \<open>Destroy\<close> and \<open>WorkspaceDelete\<close> are called.
\<close>

theorem post_apply_read_failure_counterexample:
  "Apply stub_golib (fake_Action (failing (StatePull_call ''env'') ''connection reset'') True) fresh_world =
     ((Result_zero, Some (errorString ''Apply Error: connection reset'')),
      fake_world [''default''] doc_serial_1
        [InitWithBackend_call, Import_call ''env'', Logger_InfoSection ''Terraform Apply'',
         WorkspaceList_call, WorkspaceNew_call ''env'', Apply_call, StatePull_call ''env'',
         Logger_EndSection, Logger_Error ''Failed To Run Terraform Apply!'',
         Logger_Warn ''Cleaning Up Partially Created Resources...'',
         Logger_WarnSection ''Terraform Destroy'', Destroy_call, WorkspaceDelete_call ''env'',
         Logger_EndSection]) \<and>
   fst (Apply stub_golib (fake_Action (failing Apply_call ''connection reset'') True) fresh_world) =
     (Result_zero, Some (errorString ''Apply Error: connection reset''))"
  by (simp add: fake_defs action_defs)

section \<open>Ensuring the workspace twice\<close>

lemma createWorkspace_cases:
  assumes "createWorkspaceIfNotExists a w = (r, w')"
  obtains (list_failed) e s1 where
      "Client_WorkspaceList (Client a) (engine w) = (Inl e, s1)" "r = Some e"
      "w' = \<lparr>engine = s1, events = events w @ [WorkspaceList_call]\<rparr>"
    | (present) ws s1 where
      "Client_WorkspaceList (Client a) (engine w) = (Inr ws, s1)" "Action.EnvName a \<in> set ws"
      "r = None" "w' = \<lparr>engine = s1, events = events w @ [WorkspaceList_call]\<rparr>"
    | (absent) ws s1 s2 where
      "Client_WorkspaceList (Client a) (engine w) = (Inr ws, s1)" "Action.EnvName a \<notin> set ws"
      "Client_WorkspaceNew (Client a) (Action.EnvName a) s1 = (r, s2)"
      "w' = \<lparr>engine = s2, events = events w @ [WorkspaceList_call, WorkspaceNew_call (Action.EnvName a)]\<rparr>"
proof -
  obtain lr s1 where l: "Client_WorkspaceList (Client a) (engine w) = (lr, s1)"
    by (cases "Client_WorkspaceList (Client a) (engine w)")
  show ?thesis
  proof (cases lr)
    case (Inl e)
    with l assms list_failed show ?thesis
      by (auto simp: createWorkspaceIfNotExists_def invoke_def)
  next
    case (Inr ws)
    show ?thesis
    proof (cases "Action.EnvName a \<in> set ws")
      case True
      with l Inr assms present show ?thesis
        by (auto simp: createWorkspaceIfNotExists_def invoke_def workspaceExists_iff)
    next
      case False
      obtain nr s2 where n: "Client_WorkspaceNew (Client a) (Action.EnvName a) s1 = (nr, s2)"
        by (cases "Client_WorkspaceNew (Client a) (Action.EnvName a) s1")
      with l Inr assms False absent show ?thesis
        by (auto simp: createWorkspaceIfNotExists_def invoke_def workspaceExists_iff)
    qed
  qed
qed

text \<open>
  Claim C6. With no other caller between the two runs (the second run starts in the world
  the first one left) and an engine that honours the workspace contract: when the first
  \<open>createWorkspaceIfNotExists\<close> returns no error and the engine answers the second
  listing, the second run returns no error and makes the listing call only, so no create
  call; the first run calls \<open>WorkspaceNew\<close> exactly when the name was absent; over both
  runs \<open>WorkspaceNew\<close> is called at most once; and the workspace is present at the end.
\<close>

theorem createWorkspaceIfNotExists_idempotent:
  assumes contract: "workspace_contract (Client a) (Action.EnvName a) present"
      and first: "createWorkspaceIfNotExists a w = (None, w1)"
      and listing: "fst (Client_WorkspaceList (Client a) (engine w1)) = Inr ws2"
      and second: "createWorkspaceIfNotExists a w1 = (r2, w2)"
  shows "r2 = None \<and>
         new_events w1 w2 = [WorkspaceList_call] \<and>
         (WorkspaceNew_call (Action.EnvName a) \<in> set (new_events w w1)
            \<longleftrightarrow> Action.EnvName a \<notin> present (engine w)) \<and>
         count_list (new_events w w2) (WorkspaceNew_call (Action.EnvName a)) \<le> 1 \<and>
         Action.EnvName a \<in> present (engine w2)"
proof -
  let ?n = "Action.EnvName a"
  have L: "\<And>s r s'. Client_WorkspaceList (Client a) s = (r, s') \<Longrightarrow> present s' = present s"
   and L': "\<And>s ws s'. Client_WorkspaceList (Client a) s = (Inr ws, s') \<Longrightarrow> set ws = present s"
   and N: "\<And>s s'. Client_WorkspaceNew (Client a) ?n s = (None, s') \<Longrightarrow> ?n \<in> present s'"
    using contract unfolding workspace_contract_def by blast+
  have one: "?n \<in> present (engine w1) \<and>
             (WorkspaceNew_call ?n \<in> set (new_events w w1) \<longleftrightarrow> ?n \<notin> present (engine w)) \<and>
             count_list (new_events w w1) (WorkspaceNew_call ?n) \<le> 1"
    using first
  proof (cases rule: createWorkspace_cases)
    case (list_failed e s1)
    then show ?thesis by simp
  next
    case (present ws s1)
    then show ?thesis using L [OF present(1)] L' [OF present(1)]
      by (simp add: new_events_def)
  next
    case (absent ws s1 s2)
    then show ?thesis using L [OF absent(1)] L' [OF absent(1)] N [OF absent(3)]
      by (simp add: new_events_def)
  qed
  have two: "r2 = None \<and> events w2 = events w1 @ [WorkspaceList_call] \<and> ?n \<in> present (engine w2)"
    using second
  proof (cases rule: createWorkspace_cases)
    case (list_failed e s1)
    then show ?thesis using listing by simp
  next
    case (present ws s1)
    then show ?thesis using L [OF present(1)] one by simp
  next
    case (absent ws s1 s2)
    then show ?thesis using L' [OF absent(1)] one by simp
  qed
  have ext: "\<exists>evs. events w1 = events w @ evs"
    using createWorkspace_events [OF first] by auto
  then obtain evs where evs: "events w1 = events w @ evs" by blast
  have "new_events w w2 = new_events w w1 @ [WorkspaceList_call]"
    using two evs by (simp add: new_events_def)
  then have "count_list (new_events w w2) (WorkspaceNew_call ?n) \<le> 1"
    using one by simp
  moreover have "new_events w1 w2 = [WorkspaceList_call]"
    using two by (simp add: new_events_def)
  ultimately show ?thesis using one two by simp
qed

text \<open>The scripted engine, with only the default workspace at the start.\<close>

theorem createWorkspaceIfNotExists_idempotent_witness:
  "workspace_contract (Client (fake_Action no_failure False)) ''env'' (\<lambda>s. set (spaces s)) \<and>
   createWorkspaceIfNotExists (fake_Action no_failure False) (fake_world [''default''] ''{}'' [])
     = (None, fake_world [''default'', ''env''] ''{}'' [WorkspaceList_call, WorkspaceNew_call ''env'']) \<and>
   createWorkspaceIfNotExists (fake_Action no_failure False)
       (fake_world [''default'', ''env''] ''{}'' [WorkspaceList_call, WorkspaceNew_call ''env''])
     = (None, fake_world [''default'', ''env''] ''{}''
               [WorkspaceList_call, WorkspaceNew_call ''env'', WorkspaceList_call])"
proof -
  let ?A = "fake_Action no_failure False"
  let ?w = "fake_world [''default''] ''{}'' []"
  let ?w1 = "fake_world [''default'', ''env''] ''{}'' [WorkspaceList_call, WorkspaceNew_call ''env'']"
  have n: "Action.EnvName ?A = ''env''" by (simp add: fake_Action_def)
  have k: "workspace_contract (Client ?A) (Action.EnvName ?A) (\<lambda>s. set (spaces s))"
    by (auto simp: workspace_contract_def fake_Action_def fake_Client_def no_failure_def
             split: if_splits)
  have f: "createWorkspaceIfNotExists ?A ?w = (None, ?w1)"
    by (simp add: fake_defs action_defs)
  have l: "fst (Client_WorkspaceList (Client ?A) (engine ?w1)) = Inr [''default'', ''env'']"
    by (simp add: fake_defs)
  have s: "createWorkspaceIfNotExists ?A ?w1
             = (fst (createWorkspaceIfNotExists ?A ?w1), snd (createWorkspaceIfNotExists ?A ?w1))"
    by simp
  have e: "engine (snd (createWorkspaceIfNotExists ?A ?w1)) = engine ?w1"
    by (simp add: fake_defs action_defs)
  from createWorkspaceIfNotExists_idempotent [OF k f l s]
  have "fst (createWorkspaceIfNotExists ?A ?w1) = None"
    and "new_events ?w1 (snd (createWorkspaceIfNotExists ?A ?w1)) = [WorkspaceList_call]"
    by simp_all
  then have "createWorkspaceIfNotExists ?A ?w1
     = (None, fake_world [''default'', ''env''] ''{}''
               [WorkspaceList_call, WorkspaceNew_call ''env'', WorkspaceList_call])"
    using e by (simp add: fake_defs action_defs)
  then show ?thesis using k f n by simp
qed

section \<open>The serial across applies\<close>
















section \<open>A get for a destroyed environment\<close>

text \<open>
  Claim C10, as amended. For every request whose version passes \<open>Validate\<close> and whose
  params name the destroy action, \<open>Run\<close> (the current code and the earlier one) returns
  without error a response with the request's version unchanged and no metadata, and the
  system is left as it was: nothing has been called, so no temporary directory, no storage
  probe, no download and no call of the engine.
\<close>

theorem Run_destroy_action:
  assumes valid: "Version_Validate d (InRequest.Version req) = None"
      and destroy: "Action (Params req) = DestroyAction"
  shows "Run d lib r req w = ((\<lparr>Version = InRequest.Version req, Metadata = []\<rparr>, None), w) \<and>
         Run_part_000 d d0 r req w = ((\<lparr>Version = InRequest.Version req, Metadata = []\<rparr>, None), w)"
  using assms by (simp add: Run_def Run_part_000_def)

text \<open>A destroy request for the environment \<open>env\<close>.\<close>

theorem Run_destroy_action_witness:
  "Version_Validate fake_deps (InRequest.Version (fake_request ''env'' False [] ''destroy'')) = None \<and>
   Action (Params (fake_request ''env'' False [] ''destroy'')) = DestroyAction \<and>
   Run fake_deps stub_golib fake_Runner (fake_request ''env'' False [] ''destroy'') empty_sys
     = ((\<lparr>Version = \<lparr>Version.EnvName = ''env'', Serial = 0, PlanOnly = False\<rparr>, Metadata = []\<rparr>, None),
        empty_sys) \<and>
   Run_part_000 fake_deps fake_deps_part_000 fake_Runner (fake_request ''env'' False [] ''destroy'') empty_sys
     = ((\<lparr>Version = \<lparr>Version.EnvName = ''env'', Serial = 0, PlanOnly = False\<rparr>, Metadata = []\<rparr>, None),
        empty_sys)"
proof -
  let ?req = "fake_request ''env'' False [] ''destroy''"
  have v: "Version_Validate fake_deps (InRequest.Version ?req) = None"
    by (simp add: fake_deps_def fake_request_def)
  have a: "Action (Params ?req) = DestroyAction"
    by (simp add: fake_request_def DestroyAction_def)
  have q: "InRequest.Version ?req = \<lparr>Version.EnvName = ''env'', Serial = 0, PlanOnly = False\<rparr>"
    by (simp add: fake_request_def)
  from Run_destroy_action [OF v a, of stub_golib fake_Runner empty_sys fake_deps_part_000]
  show ?thesis using v a q by simp
qed

text \<open>
  Claim C10 as stated does not hold for every request with the destroy action: \<open>Run\<close>
  validates the version first, and a destroy request whose version is rejected (here: an
  empty \<open>EnvName\<close>) returns the error \<open>Invalid Version request: ...\<close>.
\<close>

theorem Run_destroy_action_counterexample:
  "Action (Params (fake_request [] False [] ''destroy'')) = DestroyAction \<and>
   Run fake_deps stub_golib fake_Runner (fake_request [] False [] ''destroy'') empty_sys
     = ((InResponse_zero, Some (errorString ''Invalid Version request: env_name is required'')),
        empty_sys) \<and>
   Run_part_000 fake_deps fake_deps_part_000 fake_Runner (fake_request [] False [] ''destroy'') empty_sys
     = ((InResponse_zero, Some (errorString ''Invalid Version request: env_name is required'')),
        empty_sys)"
  by (simp add: Run_def Run_part_000_def fake_deps_def fake_request_def DestroyAction_def)

section \<open>A get for an environment without state\<close>

text \<open>
  Claim C4, as amended. Legacy storage: when the storage model is valid and the probe
  \<open>Version(key)\<close> of the key \<open><env>.tfstate\<close> returns a zero version, a plan-only request
  gets a response with the request's own version unchanged and no metadata, without error,
  and any other request gets the error \<open>State file does not exist with key '<key>'.\<close>
  followed by the hint. Backend: a plan-only request gets the same response before anything
  is called; any other request, when the terraform model is valid, the backend initializes
  and the workspace list lacks the environment, gets the error
  \<open>Workspace '<env>' does not exist in backend.\<close> followed by the hint.
\<close>

theorem in_no_prior_state:
  assumes key: "key = Version.EnvName (InRequest.Version req) @ ''.tfstate''"
      and client: "client = terraform_NewClient d
           (if InParams.OutputModule (Params req) \<noteq> []
            then (Source.Terraform (InRequest.Source req))
                   \<lparr>Terraform.Source := ''.'',
                    Terraform.OutputModule := InParams.OutputModule (Params req)\<rparr>
            else (Source.Terraform (InRequest.Source req))\<lparr>Terraform.Source := ''.''\<rparr>)
           (LogWriter r)"
  shows "(Storage_Validate d (Storage (InRequest.Source req)) = None \<and>
          in_invoke (Driver_Version_call key)
            (Driver_Version (storage_BuildDriver d (Storage (InRequest.Source req))) key) w
             = (Inr storageVersion, w1) \<and>
          StorageVersion_IsZero d storageVersion \<longrightarrow>
            (IsPlan (InRequest.Version req) \<longrightarrow>
               inWithLegacyStorage d lib r req tmpDir w
                 = ((\<lparr>Version = InRequest.Version req, Metadata = []\<rparr>, None), w1)) \<and>
            (\<not> IsPlan (InRequest.Version req) \<longrightarrow>
               inWithLegacyStorage d lib r req tmpDir w
                 = ((InResponse_zero,
                     Some (errorString (''State file does not exist with key '' @ quoted key
                        @ ''.'' @ destroy_hint))), w1)))
       \<and> (IsPlan (InRequest.Version req) \<longrightarrow>
            inWithBackend d lib r req tmpDir w
              = ((\<lparr>Version = InRequest.Version req, Metadata = []\<rparr>, None), w))
       \<and> (\<not> IsPlan (InRequest.Version req) \<and>
          Terraform_Validate d (Source.Terraform (InRequest.Source req)) = None \<and>
          in_invoke (NewClient_InitWithBackend_call (Version.EnvName (InRequest.Version req)))
            (InClient_InitWithBackend client (Version.EnvName (InRequest.Version req))) w
             = (None, w2) \<and>
          in_invoke NewClient_WorkspaceList_call (InClient_WorkspaceList client) w2
             = (Inr names, w3) \<and>
          Version.EnvName (InRequest.Version req) \<notin> set names \<longrightarrow>
            inWithBackend d lib r req tmpDir w
              = ((InResponse_zero,
                  Some (errorString (''Workspace '' @ quoted (Version.EnvName (InRequest.Version req))
                     @ '' does not exist in backend.'' @ destroy_hint))), w3))"
proof (intro conjI impI)
  assume h: "Storage_Validate d (Storage (InRequest.Source req)) = None \<and>
          in_invoke (Driver_Version_call key)
            (Driver_Version (storage_BuildDriver d (Storage (InRequest.Source req))) key) w
             = (Inr storageVersion, w1) \<and>
          StorageVersion_IsZero d storageVersion"
  {
    assume "IsPlan (InRequest.Version req)"
    then show "inWithLegacyStorage d lib r req tmpDir w
                 = ((\<lparr>Version = InRequest.Version req, Metadata = []\<rparr>, None), w1)"
      using h key by (simp add: inWithLegacyStorage_def)
  }
  {
    assume "\<not> IsPlan (InRequest.Version req)"
    then show "inWithLegacyStorage d lib r req tmpDir w
                 = ((InResponse_zero,
                     Some (errorString (''State file does not exist with key '' @ quoted key
                        @ ''.'' @ destroy_hint))), w1)"
      using h key by (simp add: inWithLegacyStorage_def)
  }
next
  assume "IsPlan (InRequest.Version req)"
  then show "inWithBackend d lib r req tmpDir w
              = ((\<lparr>Version = InRequest.Version req, Metadata = []\<rparr>, None), w)"
    by (simp add: inWithBackend_def)
next
  assume h: "\<not> IsPlan (InRequest.Version req) \<and>
          Terraform_Validate d (Source.Terraform (InRequest.Source req)) = None \<and>
          in_invoke (NewClient_InitWithBackend_call (Version.EnvName (InRequest.Version req)))
            (InClient_InitWithBackend client (Version.EnvName (InRequest.Version req))) w
             = (None, w2) \<and>
          in_invoke NewClient_WorkspaceList_call (InClient_WorkspaceList client) w2
             = (Inr names, w3) \<and>
          Version.EnvName (InRequest.Version req) \<notin> set names"
  show "inWithBackend d lib r req tmpDir w
              = ((InResponse_zero,
                  Some (errorString (''Workspace '' @ quoted (Version.EnvName (InRequest.Version req))
                     @ '' does not exist in backend.'' @ destroy_hint))), w3)"
  proof (cases "InParams.OutputModule (Params req) = []")
    case True
    then show ?thesis using h client
      by (simp add: inWithBackend_def Let_def workspaceExists_iff)
  next
    case False
    then show ?thesis using h client
      by (simp add: inWithBackend_def Let_def workspaceExists_iff)
  qed
qed

text \<open>
  Four requests for the environment \<open>env\<close>, which has neither a workspace nor a stored
  state file: plan-only and not, with legacy storage and with a backend.
\<close>

theorem in_no_prior_state_witness:
  "inWithLegacyStorage fake_deps stub_golib fake_Runner (fake_request ''env'' True [] ''create'')
       ''/tmp/terraform-resource-in'' empty_sys
     = ((\<lparr>Version = \<lparr>Version.EnvName = ''env'', Serial = 0, PlanOnly = True\<rparr>, Metadata = []\<rparr>, None),
        \<lparr>sys = \<lparr>backend_workspaces = [''default''], stored_versions = Map.empty\<rparr>,
         calls = [Driver_Version_call ''env.tfstate'']\<rparr>) \<and>
   inWithLegacyStorage fake_deps stub_golib fake_Runner (fake_request ''env'' False [] ''create'')
       ''/tmp/terraform-resource-in'' empty_sys
     = ((InResponse_zero,
         Some (errorString (''State file does not exist with key '' @ quoted ''env.tfstate''
                  @ ''.'' @ destroy_hint))),
        \<lparr>sys = \<lparr>backend_workspaces = [''default''], stored_versions = Map.empty\<rparr>,
         calls = [Driver_Version_call ''env.tfstate'']\<rparr>) \<and>
   inWithBackend fake_deps stub_golib fake_Runner (fake_request ''env'' True ''gcs'' ''create'')
       ''/tmp/terraform-resource-in'' empty_sys
     = ((\<lparr>Version = \<lparr>Version.EnvName = ''env'', Serial = 0, PlanOnly = True\<rparr>, Metadata = []\<rparr>, None),
        empty_sys) \<and>
   inWithBackend fake_deps stub_golib fake_Runner (fake_request ''env'' False ''gcs'' ''create'')
       ''/tmp/terraform-resource-in'' empty_sys
     = ((InResponse_zero,
         Some (errorString (''Workspace '' @ quoted ''env'' @ '' does not exist in backend.''
                  @ destroy_hint))),
        \<lparr>sys = \<lparr>backend_workspaces = [''default''], stored_versions = Map.empty\<rparr>,
         calls = [NewClient_InitWithBackend_call ''env'', NewClient_WorkspaceList_call]\<rparr>)"
proof -
  let ?wl = "\<lparr>sys = \<lparr>backend_workspaces = [''default''], stored_versions = Map.empty\<rparr>,
              calls = [Driver_Version_call ''env.tfstate'']\<rparr>"
  let ?wi = "\<lparr>sys = \<lparr>backend_workspaces = [''default''], stored_versions = Map.empty\<rparr>,
              calls = [NewClient_InitWithBackend_call ''env'']\<rparr>"
  let ?wb = "\<lparr>sys = \<lparr>backend_workspaces = [''default''], stored_versions = Map.empty\<rparr>,
              calls = [NewClient_InitWithBackend_call ''env'', NewClient_WorkspaceList_call]\<rparr>"
  have legacy: "Storage_Validate fake_deps (Storage (InRequest.Source (fake_request ''env'' p [] ''create''))) = None \<and>
      in_invoke (Driver_Version_call ''env.tfstate'')
        (Driver_Version (storage_BuildDriver fake_deps
            (Storage (InRequest.Source (fake_request ''env'' p [] ''create'')))) ''env.tfstate'') empty_sys
         = (Inr [], ?wl) \<and>
      StorageVersion_IsZero fake_deps []" for p
    by (simp add: in_fake_defs in_invoke_def)
  have k: "''env.tfstate'' = Version.EnvName (InRequest.Version (fake_request ''env'' p b ''create'')) @ ''.tfstate''"
    for p b by (simp add: fake_request_def)
  have plan: "IsPlan (InRequest.Version (fake_request ''env'' True b ''create''))"
   and noplan: "\<not> IsPlan (InRequest.Version (fake_request ''env'' False b ''create''))" for b
    by (simp_all add: IsPlan_def fake_request_def)
  have ver: "InRequest.Version (fake_request ''env'' p b ''create'')
               = \<lparr>Version.EnvName = ''env'', Serial = 0, PlanOnly = p\<rparr>" for p b
    by (simp add: fake_request_def)
  have backend: "\<not> IsPlan (InRequest.Version (fake_request ''env'' False ''gcs'' ''create'')) \<and>
      Terraform_Validate fake_deps (Source.Terraform (InRequest.Source (fake_request ''env'' False ''gcs'' ''create''))) = None \<and>
      in_invoke (NewClient_InitWithBackend_call
                   (Version.EnvName (InRequest.Version (fake_request ''env'' False ''gcs'' ''create''))))
        (InClient_InitWithBackend fake_InClient
                   (Version.EnvName (InRequest.Version (fake_request ''env'' False ''gcs'' ''create'')))) empty_sys
         = (None, ?wi) \<and>
      in_invoke NewClient_WorkspaceList_call (InClient_WorkspaceList fake_InClient) ?wi
         = (Inr [''default''], ?wb) \<and>
      Version.EnvName (InRequest.Version (fake_request ''env'' False ''gcs'' ''create'')) \<notin> set [''default'']"
    by (simp add: in_fake_defs in_invoke_def IsPlan_def)
  have cl: "fake_InClient = terraform_NewClient fake_deps m lw" for m lw
    by (simp add: fake_deps_def)
  have 1: "inWithLegacyStorage fake_deps stub_golib fake_Runner (fake_request ''env'' True [] ''create'')
       ''/tmp/terraform-resource-in'' empty_sys
     = ((\<lparr>Version = \<lparr>Version.EnvName = ''env'', Serial = 0, PlanOnly = True\<rparr>, Metadata = []\<rparr>, None), ?wl)"
    using in_no_prior_state [OF k cl, THEN conjunct1, THEN mp, OF legacy, THEN conjunct1, THEN mp, OF plan]
    by (simp add: ver)
  have 2: "inWithLegacyStorage fake_deps stub_golib fake_Runner (fake_request ''env'' False [] ''create'')
       ''/tmp/terraform-resource-in'' empty_sys
     = ((InResponse_zero,
         Some (errorString (''State file does not exist with key '' @ quoted ''env.tfstate''
                  @ ''.'' @ destroy_hint))), ?wl)"
    using in_no_prior_state [OF k cl, THEN conjunct1, THEN mp, OF legacy, THEN conjunct2, THEN mp, OF noplan]
    by simp
  have 3: "inWithBackend fake_deps stub_golib fake_Runner (fake_request ''env'' True ''gcs'' ''create'')
       ''/tmp/terraform-resource-in'' empty_sys
     = ((\<lparr>Version = \<lparr>Version.EnvName = ''env'', Serial = 0, PlanOnly = True\<rparr>, Metadata = []\<rparr>, None),
        empty_sys)"
    using in_no_prior_state [OF k cl, THEN conjunct2, THEN conjunct1, THEN mp, OF plan]
    by (simp add: ver)
  have 4: "inWithBackend fake_deps stub_golib fake_Runner (fake_request ''env'' False ''gcs'' ''create'')
       ''/tmp/terraform-resource-in'' empty_sys
     = ((InResponse_zero,
         Some (errorString (''Workspace '' @ quoted ''env'' @ '' does not exist in backend.''
                  @ destroy_hint))), ?wb)"
    using in_no_prior_state [OF k cl, THEN conjunct2, THEN conjunct2, THEN mp, OF backend]
    by (simp add: ver)
  from 1 2 3 4 show ?thesis by simp
qed

text \<open>
  Claim C4 as stated does not hold: the version returned to a plan-only request is not the
  zero value but the version of the request itself, here with \<open>EnvName\<close> \<open>env\<close> and the plan
  flag, in both modes.
\<close>

theorem in_no_prior_state_counterexample:
  "IsPlan (InRequest.Version (fake_request ''env'' True ''gcs'' ''create'')) \<and>
   inWithBackend fake_deps stub_golib fake_Runner (fake_request ''env'' True ''gcs'' ''create'')
       ''/tmp/terraform-resource-in'' empty_sys
     = ((\<lparr>Version = \<lparr>Version.EnvName = ''env'', Serial = 0, PlanOnly = True\<rparr>, Metadata = []\<rparr>, None),
        empty_sys) \<and>
   inWithLegacyStorage fake_deps stub_golib fake_Runner (fake_request ''env'' True [] ''create'')
       ''/tmp/terraform-resource-in'' empty_sys
     = ((\<lparr>Version = \<lparr>Version.EnvName = ''env'', Serial = 0, PlanOnly = True\<rparr>, Metadata = []\<rparr>, None),
        \<lparr>sys = \<lparr>backend_workspaces = [''default''], stored_versions = Map.empty\<rparr>,
         calls = [Driver_Version_call ''env.tfstate'']\<rparr>) \<and>
   \<lparr>Version.EnvName = ''env'', Serial = 0, PlanOnly = True\<rparr> \<noteq> Version_zero"
  by (simp add: inWithBackend_def inWithLegacyStorage_def in_fake_defs IsPlan_def in_invoke_def
        Version_zero_def)


end
